theory Spec2Isabelle
  imports Complex_Main
begin

section \<open>Strings, paths and dictionaries\<close>

text \<open>
  A Python \<open>str\<close> is a sequence of Unicode code points, so it is modelled as a list of
  natural numbers. \<open>ascii\<close> embeds an ASCII literal. The Korean labels of the source
  are given by their code points.
\<close>

type_synonym str = "nat list"

definition ascii :: "string \<Rightarrow> str" where
  "ascii s = map of_char s"

datatype py_error =
  KeyError | ValueError | TypeError | ZeroDivisionError | ParserError | AttributeError

text \<open>\<open>s.split("_")\<close> for a one-character separator: never the empty list.\<close>

fun split :: "nat \<Rightarrow> str \<Rightarrow> str list" where
  "split sep [] = [[]]"
| "split sep (c # cs) =
     (if c = sep then [] # split sep cs
      else (case split sep cs of [] \<Rightarrow> [[c]] | w # ws \<Rightarrow> (c # w) # ws))"

definition underscore :: nat where
  "underscore = 95"

definition dot :: nat where
  "dot = 46"

text \<open>\<open>name.rfind('.')\<close>: the index of the last dot, \<open>None\<close> for Python's -1.\<close>

fun rfind :: "nat \<Rightarrow> str \<Rightarrow> nat option" where
  "rfind c [] = None"
| "rfind c (x # xs) =
     (case rfind c xs of
        Some i \<Rightarrow> Some (Suc i)
      | None \<Rightarrow> (if x = c then Some 0 else None))"

text \<open>
  \<open>PurePath.suffix\<close> and \<open>PurePath.stem\<close> of pathlib, on the final path component:
  \<open>i = name.rfind('.')\<close>; when \<open>0 < i < len(name) - 1\<close> the suffix is \<open>name[i:]\<close> and the
  stem \<open>name[:i]\<close>, otherwise the suffix is empty and the stem is the whole name (the
  library's code up to Python 3.12; names that begin or end with a dot are its only
  special cases).
\<close>

definition suffix :: "str \<Rightarrow> str" where
  "suffix name =
     (case rfind dot name of
        Some i \<Rightarrow> (if 0 < i \<and> i + 1 < length name then drop i name else [])
      | None \<Rightarrow> [])"

definition stem :: "str \<Rightarrow> str" where
  "stem name =
     (case rfind dot name of
        Some i \<Rightarrow> (if 0 < i \<and> i + 1 < length name then take i name else name)
      | None \<Rightarrow> name)"

text \<open>
  A Python \<open>dict\<close> keeps insertion order: \<open>d[k] = v\<close> replaces the value in place when
  \<open>k\<close> is present and appends the pair otherwise. \<open>d.get(k)\<close> is \<open>map_of d k\<close>.
\<close>

type_synonym ('k, 'v) dict = "('k \<times> 'v) list"

fun dict_set :: "'k \<Rightarrow> 'v \<Rightarrow> ('k, 'v) dict \<Rightarrow> ('k, 'v) dict" where
  "dict_set k v [] = [(k, v)]"
| "dict_set k v (p # ps) = (if fst p = k then (k, v) # ps else p # dict_set k v ps)"

section \<open>Tables\<close>

text \<open>
  A cell of a pandas table is a number, a string or the missing value NaN. A numeric
  cell holds a finite float64 value, which is a real number. A table is its column labels
  and its rows; a row maps labels to cells, and a label a row does not have reads as NaN.
\<close>

datatype cell = Num real | Str str | NaN

text \<open>
  The result of a float64 computation is a finite number, an infinity (on overflow) or
  NaN. \<open>float64\<close> holds the values that are not NaN, in their order; \<open>pyfloat\<close> adds NaN
  as \<open>None\<close>.
\<close>

datatype float64 = NegInf | Finite real | PosInf

fun rank :: "float64 \<Rightarrow> int" where
  "rank NegInf = - 1"
| "rank (Finite x) = 0"
| "rank PosInf = 1"

fun finite_part :: "float64 \<Rightarrow> real" where
  "finite_part (Finite x) = x"
| "finite_part _ = 0"

instantiation float64 :: linorder
begin

definition less_eq_float64 :: "float64 \<Rightarrow> float64 \<Rightarrow> bool" where
  "less_eq_float64 a b \<longleftrightarrow> rank a < rank b \<or> (rank a = rank b \<and> finite_part a \<le> finite_part b)"

definition less_float64 :: "float64 \<Rightarrow> float64 \<Rightarrow> bool" where
  "less_float64 a b \<longleftrightarrow> rank a < rank b \<or> (rank a = rank b \<and> finite_part a < finite_part b)"

instance
proof
  fix a b c :: float64
  show "a < b \<longleftrightarrow> a \<le> b \<and> \<not> b \<le> a"
    by (auto simp: less_eq_float64_def less_float64_def)
  show "a \<le> a"
    by (simp add: less_eq_float64_def)
  show "a \<le> b \<Longrightarrow> b \<le> c \<Longrightarrow> a \<le> c"
    by (auto simp: less_eq_float64_def)
  show "a \<le> b \<Longrightarrow> b \<le> a \<Longrightarrow> a = b"
    by (cases a; cases b) (auto simp: less_eq_float64_def)
  show "a \<le> b \<or> b \<le> a"
    by (auto simp: less_eq_float64_def)
qed

end

type_synonym pyfloat = "float64 option"

text \<open>
  How float64 arithmetic rounds, and in which order the table library adds the values
  of a column, is the platform's and the library's. The model takes it as a parameter:
  \<open>fmean vs\<close> is the float64 mean the library computes for the non-missing values
  \<open>vs\<close> of a column that has some, \<open>fadd\<close> is the float64 addition and \<open>fdiv s n\<close> the
  float64 division of \<open>s\<close> by the positive integer \<open>n\<close>.
\<close>

record float_ops =
  fmean :: "real list \<Rightarrow> pyfloat"
  fadd :: "pyfloat \<Rightarrow> pyfloat \<Rightarrow> pyfloat"
  fdiv :: "pyfloat \<Rightarrow> nat \<Rightarrow> pyfloat"

type_synonym row = "(str, cell) dict"

record DataFrame =
  columns :: "str list"
  rows :: "row list"

definition len :: "DataFrame \<Rightarrow> nat" where
  "len df = length (rows df)"

definition cell_at :: "str \<Rightarrow> row \<Rightarrow> cell" where
  "cell_at c r = (case map_of r c of Some x \<Rightarrow> x | None \<Rightarrow> NaN)"

text \<open>\<open>df[c]\<close>: the column, KeyError when the table has no such label.\<close>

definition getcol :: "DataFrame \<Rightarrow> str \<Rightarrow> py_error + cell list" where
  "getcol df c = (if c \<in> set (columns df) then Inr (map (cell_at c) (rows df)) else Inl KeyError)"

fun is_str :: "cell \<Rightarrow> bool" where
  "is_str (Str _) = True"
| "is_str _ = False"

fun non_missing :: "cell list \<Rightarrow> real list" where
  "non_missing [] = []"
| "non_missing (Num x # cs) = x # non_missing cs"
| "non_missing (_ # cs) = non_missing cs"

text \<open>
  \<open>Series.mean()\<close> (skipna=True): the mean of the non-missing values, NaN when there is
  none, TypeError on a column that holds strings.
\<close>

definition mean :: "float_ops \<Rightarrow> cell list \<Rightarrow> py_error + pyfloat" where
  "mean fp cs =
     (if list_ex is_str cs then Inl TypeError
      else if non_missing cs = [] then Inr None
      else Inr (fmean fp (non_missing cs)))"

definition col_mean :: "float_ops \<Rightarrow> DataFrame \<Rightarrow> str \<Rightarrow> py_error + pyfloat" where
  "col_mean fp df c = (case getcol df c of Inl e \<Rightarrow> Inl e | Inr cs \<Rightarrow> mean fp cs)"

text \<open>
  \<open>Series.idxmax()\<close> (skipna=True) on a column with the default index 0, 1, ...: one
  pass that keeps the position of the greatest value seen so far and moves only on a
  strictly greater one, so the first maximum wins; NaN is skipped. With no non-missing
  value there is no such position: the lookup that follows fails (ValueError).
\<close>

fun argmax_from ::
  "nat \<Rightarrow> (nat \<times> float64) option \<Rightarrow> pyfloat list \<Rightarrow> (nat \<times> float64) option" where
  "argmax_from i acc [] = acc"
| "argmax_from i acc (None # xs) = argmax_from (Suc i) acc xs"
| "argmax_from i None (Some x # xs) = argmax_from (Suc i) (Some (i, x)) xs"
| "argmax_from i (Some (j, m)) (Some x # xs) =
     (if m < x then argmax_from (Suc i) (Some (i, x)) xs
      else argmax_from (Suc i) (Some (j, m)) xs)"

definition idxmax :: "pyfloat list \<Rightarrow> py_error + nat" where
  "idxmax xs = (case argmax_from 0 None xs of None \<Rightarrow> Inl ValueError | Some (i, _) \<Rightarrow> Inr i)"

text \<open>\<open>df.loc[i]\<close> on the default index.\<close>

definition loc :: "'a list \<Rightarrow> nat \<Rightarrow> py_error + 'a" where
  "loc rs i = (if i < length rs then Inr (rs ! i) else Inl KeyError)"

section \<open>Configuration\<close>

text \<open>
  The four schools, by code points: Songdo-go, Haneul-go, Ara-go and Dongsan-go, and the
  target EC level and display colour that \<open>ec_conditions\<close> and \<open>school_colors\<close> give them.
\<close>

definition songdo :: str where
  "songdo = [0xC1A1, 0xB3C4, 0xACE0]"

definition haneul :: str where
  "haneul = [0xD558, 0xB298, 0xACE0]"

definition ara :: str where
  "ara = [0xC544, 0xB77C, 0xACE0]"

definition dongsan :: str where
  "dongsan = [0xB3D9, 0xC0B0, 0xACE0]"

definition ec_conditions :: "(str, real) dict" where
  "ec_conditions = [(songdo, 1.0), (haneul, 2.0), (ara, 4.0), (dongsan, 8.0)]"

definition school_colors :: "(str, str) dict" where
  "school_colors =
     [(songdo, ascii ''#1f77b4''), (haneul, ascii ''#2ca02c''),
      (ara, ascii ''#ff7f0e''), (dongsan, ascii ''#d62728'')]"

text \<open>
  The column labels of the workbook sheets: fresh weight (g), leaf count and shoot
  length (mm), in the Korean of the source; the label of the school column that the
  long-form table adds; and the labels of the environment files.
\<close>

definition col_fresh_weight :: str where
  "col_fresh_weight = [0xC0DD, 0xC911, 0xB7C9, 0x28, 0x67, 0x29]"

definition col_leaf_count :: str where
  "col_leaf_count = [0xC78E, 0x20, 0xC218, 0x28, 0xC7A5, 0x29]"

definition col_shoot_length :: str where
  "col_shoot_length = [0xC9C0, 0xC0C1, 0xBD80, 0x20, 0xAE38, 0xC774, 0x28, 0x6D, 0x6D, 0x29]"

definition col_school :: str where
  "col_school = [0xD559, 0xAD50]"

definition col_temperature :: str where
  "col_temperature = ascii ''temperature''"

definition col_humidity :: str where
  "col_humidity = ascii ''humidity''"

definition col_ph :: str where
  "col_ph = ascii ''ph''"

definition col_ec :: str where
  "col_ec = ascii ''ec''"

section \<open>The growth-results tab\<close>

text \<open>
  One row of the growth summary: school, target EC (\<open>ec_conditions.get\<close>, absent for a
  school that is not configured), the three column means and the specimen count
  \<open>len(df)\<close>.
\<close>

record growth_row =
  g_school :: str
  g_ec :: "real option"
  mean_fresh_weight :: pyfloat
  mean_leaf_count :: pyfloat
  mean_shoot_length :: pyfloat
  g_count :: nat

text \<open>
  The loop over \<open>growth_data.items()\<close>. A failing column access or mean raises out of
  the loop, in the order the source evaluates them.
\<close>

fun growth_summary :: "float_ops \<Rightarrow> (str, DataFrame) dict \<Rightarrow> py_error + growth_row list" where
  "growth_summary fp [] = Inr []"
| "growth_summary fp ((school, df) # rest) =
     (case col_mean fp df col_fresh_weight of Inl e \<Rightarrow> Inl e | Inr fw \<Rightarrow>
     (case col_mean fp df col_leaf_count of Inl e \<Rightarrow> Inl e | Inr lc \<Rightarrow>
     (case col_mean fp df col_shoot_length of Inl e \<Rightarrow> Inl e | Inr sl \<Rightarrow>
     (case growth_summary fp rest of Inl e \<Rightarrow> Inl e | Inr rs \<Rightarrow>
        Inr (\<lparr>g_school = school, g_ec = map_of ec_conditions school,
              mean_fresh_weight = fw, mean_leaf_count = lc, mean_shoot_length = sl,
              g_count = len df\<rparr> # rs)))))"

text \<open>\<open>best = summary_df.loc[summary_df[mean fresh weight].idxmax()]\<close>\<close>

definition best_of :: "growth_row list \<Rightarrow> py_error + growth_row" where
  "best_of summary =
     (case idxmax (map mean_fresh_weight summary) of Inl e \<Rightarrow> Inl e | Inr i \<Rightarrow> loc summary i)"

definition best_group :: "float_ops \<Rightarrow> (str, DataFrame) dict \<Rightarrow> py_error + growth_row" where
  "best_group fp growth_data =
     (case growth_summary fp growth_data of Inl e \<Rightarrow> Inl e | Inr summary \<Rightarrow> best_of summary)"

text \<open>
  Well-formed input for the growth tab: a sheet has the three measurement columns and
  they hold no strings.
\<close>

definition numeric_col :: "DataFrame \<Rightarrow> str \<Rightarrow> bool" where
  "numeric_col df c \<longleftrightarrow> c \<in> set (columns df) \<and> \<not> list_ex is_str (map (cell_at c) (rows df))"

definition growth_table :: "DataFrame \<Rightarrow> bool" where
  "growth_table df \<longleftrightarrow>
     numeric_col df col_fresh_weight \<and> numeric_col df col_leaf_count \<and>
     numeric_col df col_shoot_length"

text \<open>The non-missing values of a column, for a label the table has.\<close>

definition values_of :: "DataFrame \<Rightarrow> str \<Rightarrow> real list" where
  "values_of df c = non_missing (map (cell_at c) (rows df))"

text \<open>
  \<open>df.assign(school=s)\<close> sets the school column in every row (adding the label when the
  table lacks it); \<open>pd.concat\<close> stacks the rows of the tables in order, over the union of
  their labels, and raises ValueError on an empty list of tables.
\<close>

definition assign_school :: "DataFrame \<Rightarrow> str \<Rightarrow> DataFrame" where
  "assign_school df school =
     \<lparr>columns = (if col_school \<in> set (columns df) then columns df else columns df @ [col_school]),
      rows = map (dict_set col_school (Str school)) (rows df)\<rparr>"

definition concat_frames :: "DataFrame list \<Rightarrow> py_error + DataFrame" where
  "concat_frames dfs =
     (if dfs = [] then Inl ValueError
      else Inr \<lparr>columns = rev (remdups (rev (concat (map columns dfs)))),
                rows = concat (map rows dfs)\<rparr>)"

definition concat_df :: "(str, DataFrame) dict \<Rightarrow> py_error + DataFrame" where
  "concat_df growth_data = concat_frames (map (\<lambda>(school, df). assign_school df school) growth_data)"

record tab3_out =
  summary_df :: "growth_row list"
  best :: growth_row
  long_form :: DataFrame

text \<open>
  The data the growth tab computes, in the order of the source: the summary, the best
  row, the long-form table. Chart construction and number formatting are the charting
  library's and are outside the model.
\<close>

definition tab3 :: "float_ops \<Rightarrow> (str, DataFrame) dict \<Rightarrow> py_error + tab3_out" where
  "tab3 fp growth_data =
     (case growth_summary fp growth_data of Inl e \<Rightarrow> Inl e | Inr summary \<Rightarrow>
     (case best_of summary of Inl e \<Rightarrow> Inl e | Inr b \<Rightarrow>
     (case concat_df growth_data of Inl e \<Rightarrow> Inl e | Inr c \<Rightarrow>
        Inr \<lparr>summary_df = summary, best = b, long_form = c\<rparr>)))"

section \<open>The overview tab\<close>

record overview_row =
  o_school :: str
  o_ec :: "real option"
  o_count :: nat
  o_color :: "str option"

text \<open>\<open>len(growth_data.get(school, []))\<close>\<close>

definition specimen_count :: "(str, DataFrame) dict \<Rightarrow> str \<Rightarrow> nat" where
  "specimen_count growth_data school =
     (case map_of growth_data school of Some df \<Rightarrow> len df | None \<Rightarrow> 0)"

text \<open>
  The loop over \<open>env_data.items()\<close>: each pass yields the overview row of the school and
  the two means appended to \<open>temps\<close> and \<open>hums\<close>.
\<close>

fun overview_loop ::
  "float_ops \<Rightarrow> (str, DataFrame) dict \<Rightarrow> (str, DataFrame) dict \<Rightarrow>
     py_error + (overview_row \<times> pyfloat \<times> pyfloat) list"
where
  "overview_loop fp [] growth_data = Inr []"
| "overview_loop fp ((school, df) # rest) growth_data =
     (case col_mean fp df col_temperature of Inl e \<Rightarrow> Inl e | Inr t \<Rightarrow>
     (case col_mean fp df col_humidity of Inl e \<Rightarrow> Inl e | Inr h \<Rightarrow>
     (case overview_loop fp rest growth_data of Inl e \<Rightarrow> Inl e | Inr rs \<Rightarrow>
        Inr ((\<lparr>o_school = school, o_ec = map_of ec_conditions school,
               o_count = specimen_count growth_data school,
               o_color = map_of school_colors school\<rparr>, t, h) # rs))))"

text \<open>
  Python's \<open>sum(xs) / len(xs)\<close> over floats: the sum starts from 0 and adds the items
  from left to right in float64; a zero length raises ZeroDivisionError.
\<close>

definition py_sum :: "float_ops \<Rightarrow> pyfloat list \<Rightarrow> pyfloat" where
  "py_sum fp xs = foldl (fadd fp) (Some (Finite 0)) xs"

definition py_truediv :: "float_ops \<Rightarrow> pyfloat \<Rightarrow> nat \<Rightarrow> py_error + pyfloat" where
  "py_truediv fp s n = (if n = 0 then Inl ZeroDivisionError else Inr (fdiv fp s n))"

definition average :: "float_ops \<Rightarrow> pyfloat list \<Rightarrow> py_error + pyfloat" where
  "average fp xs = py_truediv fp (py_sum fp xs) (length xs)"

text \<open>The label of the fourth metric: \<open>2.0 (Haneul-go)\<close> followed by a star, U+2B50.\<close>

definition best_ec_label :: str where
  "best_ec_label = ascii ''2.0 ('' @ haneul @ ascii '') '' @ [0x2B50]"

record tab1_out =
  overview_table :: "overview_row list"
  metric_total_count :: nat
  metric_temperature :: pyfloat
  metric_humidity :: pyfloat
  metric_best_ec :: str

text \<open>
  The four metrics hold the numbers before they are formatted to one decimal place.
\<close>

definition tab1 ::
  "float_ops \<Rightarrow> (str, DataFrame) dict \<Rightarrow> (str, DataFrame) dict \<Rightarrow> py_error + tab1_out" where
  "tab1 fp env_data growth_data =
     (case overview_loop fp env_data growth_data of Inl e \<Rightarrow> Inl e | Inr rs \<Rightarrow>
     (case average fp (map (\<lambda>(r, t, h). t) rs) of Inl e \<Rightarrow> Inl e | Inr avg_t \<Rightarrow>
     (case average fp (map (\<lambda>(r, t, h). h) rs) of Inl e \<Rightarrow> Inl e | Inr avg_h \<Rightarrow>
        Inr \<lparr>overview_table = map (\<lambda>(r, t, h). r) rs,
             metric_total_count = sum_list (map (\<lambda>(r, t, h). o_count r) rs),
             metric_temperature = avg_t,
             metric_humidity = avg_h,
             metric_best_ec = best_ec_label\<rparr>)))"

section \<open>The environment tab\<close>

record env_row =
  e_school :: str
  e_temperature :: pyfloat
  e_humidity :: pyfloat
  e_ph :: pyfloat
  e_ec :: pyfloat
  e_target_ec :: "real option"

text \<open>The loop of the environment tab that builds \<open>avg_df\<close>: the per-school averages.\<close>

fun avg_rows :: "float_ops \<Rightarrow> (str, DataFrame) dict \<Rightarrow> py_error + env_row list" where
  "avg_rows fp [] = Inr []"
| "avg_rows fp ((school, df) # rest) =
     (case col_mean fp df col_temperature of Inl e \<Rightarrow> Inl e | Inr t \<Rightarrow>
     (case col_mean fp df col_humidity of Inl e \<Rightarrow> Inl e | Inr h \<Rightarrow>
     (case col_mean fp df col_ph of Inl e \<Rightarrow> Inl e | Inr p \<Rightarrow>
     (case col_mean fp df col_ec of Inl e \<Rightarrow> Inl e | Inr c \<Rightarrow>
     (case avg_rows fp rest of Inl e \<Rightarrow> Inl e | Inr rs \<Rightarrow>
        Inr (\<lparr>e_school = school, e_temperature = t, e_humidity = h, e_ph = p, e_ec = c,
              e_target_ec = map_of ec_conditions school\<rparr> # rs))))))"

text \<open>
  The sidebar offers the label for all schools (two Hangul syllables, U+C804 U+CCB4)
  followed by the keys of the environment data; \<open>selected_school\<close> is the choice.
\<close>

definition all_schools :: str where
  "all_schools = [0xC804, 0xCCB4]"

text \<open>
  The time series of a selected school. When the choice is not the label for all
  schools, \<open>env_data[selected_school]\<close> raises KeyError for a missing key; otherwise the
  next statement calls \<open>fig_ts.add_line\<close>, and the figure class of the charting library
  has no attribute of that name: the attribute lookup, which comes before the arguments
  are evaluated, raises AttributeError. Nothing after it in the branch is reached.
\<close>

definition time_series :: "str \<Rightarrow> (str, DataFrame) dict \<Rightarrow> py_error + unit" where
  "time_series selected_school env_data =
     (if selected_school = all_schools then Inr ()
      else (case map_of env_data selected_school of
              None \<Rightarrow> Inl KeyError
            | Some df \<Rightarrow> Inl AttributeError))"

text \<open>
  The environment tab: the averages, then the time series of the selected school. The
  construction of the other charts is outside the model.
\<close>

definition tab2 :: "float_ops \<Rightarrow> str \<Rightarrow> (str, DataFrame) dict \<Rightarrow> py_error + env_row list" where
  "tab2 fp selected_school env_data =
     (case avg_rows fp env_data of Inl e \<Rightarrow> Inl e | Inr avg_df \<Rightarrow>
     (case time_series selected_school env_data of Inl e \<Rightarrow> Inl e | Inr _ \<Rightarrow> Inr avg_df))"

section \<open>The data directory and the loaders\<close>

text \<open>
  An entry of the data directory is its name and what the readers of the table library
  make of it: a comma-separated file parses to a table, a workbook to its sheets in
  sheet order, and anything else fails to parse. The directory is the list of its
  entries in the order \<open>iterdir()\<close> yields them.
\<close>

datatype content = Table DataFrame | Sheets "(str \<times> DataFrame) list" | Unreadable

record entry =
  entry_name :: str
  entry_content :: content

definition read_csv :: "entry \<Rightarrow> py_error + DataFrame" where
  "read_csv f = (case entry_content f of Table df \<Rightarrow> Inr df | _ \<Rightarrow> Inl ParserError)"

definition ExcelFile :: "entry \<Rightarrow> py_error + (str \<times> DataFrame) list" where
  "ExcelFile f = (case entry_content f of Sheets sh \<Rightarrow> Inr sh | _ \<Rightarrow> Inl ParserError)"

definition read_excel :: "(str \<times> DataFrame) list \<Rightarrow> str \<Rightarrow> py_error + DataFrame" where
  "read_excel sh sheet = (case map_of sh sheet of Some df \<Rightarrow> Inr df | None \<Rightarrow> Inl ValueError)"

text \<open>
  \<open>f.stem.split("_")[0]\<close>. The split of a string is never the empty list, so the index
  0 always exists.
\<close>

definition school_name :: "str \<Rightarrow> str" where
  "school_name name = (case split underscore (stem name) of [] \<Rightarrow> [] | w # _ \<Rightarrow> w)"

text \<open>The first loop of \<open>load_environment_data\<close>, from the dictionary built so far.\<close>

fun school_files_loop :: "entry list \<Rightarrow> (str, entry) dict \<Rightarrow> (str, entry) dict" where
  "school_files_loop [] school_files = school_files"
| "school_files_loop (f # fs) school_files =
     school_files_loop fs
       (if suffix (entry_name f) = ascii ''.csv''
        then dict_set (school_name (entry_name f)) f school_files
        else school_files)"

text \<open>The second loop: every registered file is read; a parse failure raises.\<close>

fun env_data_loop ::
  "(str, entry) dict \<Rightarrow> (str, DataFrame) dict \<Rightarrow> py_error + (str, DataFrame) dict" where
  "env_data_loop [] env_data = Inr env_data"
| "env_data_loop ((school, path) # rest) env_data =
     (case read_csv path of Inl e \<Rightarrow> Inl e
      | Inr df \<Rightarrow> env_data_loop rest (dict_set school df env_data))"

definition load_environment_data :: "entry list \<Rightarrow> py_error + (str, DataFrame) dict" where
  "load_environment_data data_dir = env_data_loop (school_files_loop data_dir []) []"

text \<open>The sheet loop of \<open>load_growth_data\<close>, over \<open>xls.sheet_names\<close>.\<close>

fun growth_data_loop ::
  "(str \<times> DataFrame) list \<Rightarrow> str list \<Rightarrow> (str, DataFrame) dict \<Rightarrow> py_error + (str, DataFrame) dict"
where
  "growth_data_loop sh [] growth_data = Inr growth_data"
| "growth_data_loop sh (sheet # rest) growth_data =
     (case read_excel sh sheet of Inl e \<Rightarrow> Inl e
      | Inr df \<Rightarrow> growth_data_loop sh rest (dict_set sheet df growth_data))"

text \<open>
  \<open>load_growth_data\<close>: the first entry with the workbook suffix, \<open>None\<close> when there is
  none.
\<close>

definition load_growth_data :: "entry list \<Rightarrow> py_error + (str, DataFrame) dict option" where
  "load_growth_data data_dir =
     (case find (\<lambda>f. suffix (entry_name f) = ascii ''.xlsx'') data_dir of
        None \<Rightarrow> Inr None
      | Some xlsx_file \<Rightarrow>
         (case ExcelFile xlsx_file of Inl e \<Rightarrow> Inl e
          | Inr sh \<Rightarrow>
             (case growth_data_loop sh (map fst sh) [] of Inl e \<Rightarrow> Inl e
              | Inr growth_data \<Rightarrow> Inr (Some growth_data))))"

section \<open>The loader cache\<close>

text \<open>
  \<open>st.cache_data\<close> memoises a function on its arguments. Both loaders take no argument,
  so each has a single cache slot for the life of the process: an empty slot runs the
  function on the directory as it is now and stores a returned value (a raised error is
  not stored); a filled slot returns the stored value and does not run the function.
\<close>

definition cache_data ::
  "(entry list \<Rightarrow> py_error + 'a) \<Rightarrow> 'a option \<Rightarrow> entry list \<Rightarrow> (py_error + 'a) \<times> 'a option" where
  "cache_data f slot data_dir =
     (case slot of
        Some v \<Rightarrow> (Inr v, Some v)
      | None \<Rightarrow> (case f data_dir of Inl e \<Rightarrow> (Inl e, None) | Inr v \<Rightarrow> (Inr v, Some v)))"

record caches =
  env_slot :: "(str, DataFrame) dict option"
  growth_slot :: "(str, DataFrame) dict option option"

definition fresh_process :: caches where
  "fresh_process = \<lparr>env_slot = None, growth_slot = None\<rparr>"

section \<open>One run of the script\<close>

text \<open>
  Python's \<open>not env_data or not growth_data\<close>: an empty dictionary and \<open>None\<close> are both
  false.
\<close>

definition startup_stop :: "(str, DataFrame) dict \<Rightarrow> (str, DataFrame) dict option \<Rightarrow> bool" where
  "startup_stop env_data growth_data \<longleftrightarrow>
     env_data = [] \<or> (case growth_data of None \<Rightarrow> True | Some g \<Rightarrow> g = [])"

record dashboard =
  overview :: tab1_out
  environment :: "env_row list"
  growth :: tab3_out

text \<open>
  What a run shows: the fatal error message with nothing after it (\<open>st.error\<close>,
  \<open>st.stop\<close>), or the three tabs.
\<close>

datatype screen = Fatal_error | Rendered dashboard

text \<open>
  The three tabs in the order of the script. An error raised in a tab ends the run there.
\<close>

definition render ::
  "float_ops \<Rightarrow> str \<Rightarrow> (str, DataFrame) dict \<Rightarrow> (str, DataFrame) dict \<Rightarrow> py_error + screen" where
  "render fp selected_school env_data growth_data =
     (case tab1 fp env_data growth_data of Inl e \<Rightarrow> Inl e | Inr t1 \<Rightarrow>
     (case tab2 fp selected_school env_data of Inl e \<Rightarrow> Inl e | Inr t2 \<Rightarrow>
     (case tab3 fp growth_data of Inl e \<Rightarrow> Inl e | Inr t3 \<Rightarrow>
        Inr (Rendered \<lparr>overview = t1, environment = t2, growth = t3\<rparr>))))"

definition after_loading ::
  "float_ops \<Rightarrow> str \<Rightarrow> (str, DataFrame) dict \<Rightarrow> (str, DataFrame) dict option \<Rightarrow>
     py_error + screen" where
  "after_loading fp selected_school env_data growth_data =
     (if startup_stop env_data growth_data then Inr Fatal_error
      else (case growth_data of
              None \<Rightarrow> Inr Fatal_error
            | Some g \<Rightarrow> render fp selected_school env_data g))"

text \<open>
  A run of the script in a process whose caches are \<open>c\<close>, with the sidebar choice
  \<open>selected_school\<close>, on the directory as it is at that moment: the result and the caches
  it leaves. An error raised by a loader ends the run before the next step.
\<close>

definition script ::
  "float_ops \<Rightarrow> str \<Rightarrow> caches \<Rightarrow> entry list \<Rightarrow> (py_error + screen) \<times> caches" where
  "script fp selected_school c data_dir =
     (case cache_data load_environment_data (env_slot c) data_dir of
        (Inl e, s1) \<Rightarrow> (Inl e, c\<lparr>env_slot := s1\<rparr>)
      | (Inr env_data, s1) \<Rightarrow>
         (case cache_data load_growth_data (growth_slot c) data_dir of
            (Inl e, s2) \<Rightarrow> (Inl e, \<lparr>env_slot = s1, growth_slot = s2\<rparr>)
          | (Inr growth_data, s2) \<Rightarrow>
              (after_loading fp selected_school env_data growth_data,
               \<lparr>env_slot = s1, growth_slot = s2\<rparr>)))"

section \<open>The name normaliser\<close>

text \<open>
  \<open>unicodedata.normalize("NFC", name)\<close> is the Unicode library's; the two functions of
  the source take it as the parameter \<open>nfc\<close>.
\<close>

definition normalize_name :: "(str \<Rightarrow> str) \<Rightarrow> str \<Rightarrow> str" where
  "normalize_name nfc name = nfc name"

definition find_file_by_name :: "(str \<Rightarrow> str) \<Rightarrow> entry list \<Rightarrow> str \<Rightarrow> entry option" where
  "find_file_by_name nfc directory target_name =
     (let target_norm = normalize_name nfc target_name
      in find (\<lambda>file. normalize_name nfc (entry_name file) = target_norm) directory)"

text \<open>
  The conjoining-jamo part of the normalisation (Unicode Standard, section 3.12, Hangul
  syllable decomposition and composition). On text made of ASCII characters, Hangul
  syllables and conjoining jamo it is the whole of NFC; it serves as the concrete
  \<open>nfc\<close> where a name is evaluated.
\<close>

definition SBase :: nat where "SBase = 0xAC00"
definition LBase :: nat where "LBase = 0x1100"
definition VBase :: nat where "VBase = 0x1161"
definition TBase :: nat where "TBase = 0x11A7"
definition LCount :: nat where "LCount = 19"
definition VCount :: nat where "VCount = 21"
definition TCount :: nat where "TCount = 28"

definition hangul_decompose :: "nat \<Rightarrow> str" where
  "hangul_decompose c =
     (if SBase \<le> c \<and> c < SBase + LCount * VCount * TCount
      then (let si = c - SBase;
                l = LBase + si div (VCount * TCount);
                v = VBase + (si mod (VCount * TCount)) div TCount;
                t = TBase + si mod TCount
            in if t = TBase then [l, v] else [l, v, t])
      else [c])"

definition is_L :: "nat \<Rightarrow> bool" where
  "is_L c \<longleftrightarrow> LBase \<le> c \<and> c < LBase + LCount"

definition is_V :: "nat \<Rightarrow> bool" where
  "is_V c \<longleftrightarrow> VBase \<le> c \<and> c < VBase + VCount"

definition is_T :: "nat \<Rightarrow> bool" where
  "is_T c \<longleftrightarrow> TBase < c \<and> c < TBase + TCount"

definition compose_LV :: "nat \<Rightarrow> nat \<Rightarrow> nat" where
  "compose_LV l v = SBase + ((l - LBase) * VCount + (v - VBase)) * TCount"

fun hangul_compose :: "str \<Rightarrow> str" where
  "hangul_compose (l # v # t # rest) =
     (if is_L l \<and> is_V v
      then (if is_T t then (compose_LV l v + (t - TBase)) # hangul_compose rest
            else compose_LV l v # hangul_compose (t # rest))
      else l # hangul_compose (v # t # rest))"
| "hangul_compose [l, v] = (if is_L l \<and> is_V v then [compose_LV l v] else [l, v])"
| "hangul_compose cs = cs"

definition hangul_nfc :: "str \<Rightarrow> str" where
  "hangul_nfc s = hangul_compose (concat (map hangul_decompose s))"

section \<open>Specification functions and example data\<close>

text \<open>
  The arithmetic mean over the reals, and the float operations without rounding: the
  mean, sum and quotient of finite numbers are the exact ones, and infinities and NaN
  combine as in the floating-point standard. float64 arithmetic agrees with \<open>exact\<close>
  wherever every intermediate result is a float64 value, as in the example data below
  (small integers, halves).
\<close>

definition arithmetic_mean :: "real list \<Rightarrow> real" where
  "arithmetic_mean vs = sum_list vs / real (length vs)"

fun add64 :: "float64 \<Rightarrow> float64 \<Rightarrow> pyfloat" where
  "add64 (Finite x) (Finite y) = Some (Finite (x + y))"
| "add64 PosInf NegInf = None"
| "add64 NegInf PosInf = None"
| "add64 PosInf _ = Some PosInf"
| "add64 _ PosInf = Some PosInf"
| "add64 NegInf _ = Some NegInf"
| "add64 _ NegInf = Some NegInf"

definition exact_add :: "pyfloat \<Rightarrow> pyfloat \<Rightarrow> pyfloat" where
  "exact_add a b =
     (case a of None \<Rightarrow> None | Some x \<Rightarrow> (case b of None \<Rightarrow> None | Some y \<Rightarrow> add64 x y))"

fun exact_div :: "pyfloat \<Rightarrow> nat \<Rightarrow> pyfloat" where
  "exact_div (Some (Finite x)) n = Some (Finite (x / real n))"
| "exact_div s n = s"

definition exact :: float_ops where
  "exact = \<lparr>fmean = (\<lambda>vs. Some (Finite (arithmetic_mean vs))), fadd = exact_add, fdiv = exact_div\<rparr>"

text \<open>
  The mean the code computes for a numeric column, and the summary row that a sheet with
  the three numeric columns gets: NaN for a column without a non-missing value, the
  library's float64 mean of the non-missing values otherwise.
\<close>

definition mean_of :: "float_ops \<Rightarrow> DataFrame \<Rightarrow> str \<Rightarrow> pyfloat" where
  "mean_of fp df c = (if values_of df c = [] then None else fmean fp (values_of df c))"

definition growth_row_of :: "float_ops \<Rightarrow> str \<times> DataFrame \<Rightarrow> growth_row" where
  "growth_row_of fp g =
     \<lparr>g_school = fst g, g_ec = map_of ec_conditions (fst g),
      mean_fresh_weight = mean_of fp (snd g) col_fresh_weight,
      mean_leaf_count = mean_of fp (snd g) col_leaf_count,
      mean_shoot_length = mean_of fp (snd g) col_shoot_length,
      g_count = len (snd g)\<rparr>"

text \<open>
  Well-formed input for the overview and environment tabs: an environment table has the
  four measurement columns and they hold no strings. The rows these tabs compute for a
  school from such a table.
\<close>

definition env_table :: "DataFrame \<Rightarrow> bool" where
  "env_table df \<longleftrightarrow>
     numeric_col df col_temperature \<and> numeric_col df col_humidity \<and>
     numeric_col df col_ph \<and> numeric_col df col_ec"

definition overview_row_of :: "(str, DataFrame) dict \<Rightarrow> str \<Rightarrow> overview_row" where
  "overview_row_of growth_data school =
     \<lparr>o_school = school, o_ec = map_of ec_conditions school,
      o_count = specimen_count growth_data school, o_color = map_of school_colors school\<rparr>"

definition env_row_of :: "float_ops \<Rightarrow> str \<times> DataFrame \<Rightarrow> env_row" where
  "env_row_of fp g =
     \<lparr>e_school = fst g, e_temperature = mean_of fp (snd g) col_temperature,
      e_humidity = mean_of fp (snd g) col_humidity, e_ph = mean_of fp (snd g) col_ph,
      e_ec = mean_of fp (snd g) col_ec, e_target_ec = map_of ec_conditions (fst g)\<rparr>"

text \<open>
  Example data: two schools A and B with three and five specimens whose fresh weights
  average 2 g and 4 g.
\<close>

definition specimen :: "real \<Rightarrow> real \<Rightarrow> real \<Rightarrow> row" where
  "specimen w l s = [(col_fresh_weight, Num w), (col_leaf_count, Num l), (col_shoot_length, Num s)]"

definition sheet_of :: "real list \<Rightarrow> DataFrame" where
  "sheet_of ws =
     \<lparr>columns = [col_fresh_weight, col_leaf_count, col_shoot_length],
      rows = map (\<lambda>w. specimen w 4 30) ws\<rparr>"

definition school_A :: str where
  "school_A = ascii ''A''"

definition school_B :: str where
  "school_B = ascii ''B''"

definition growth_AB :: "(str, DataFrame) dict" where
  "growth_AB = [(school_A, sheet_of [1, 2, 3]), (school_B, sheet_of [4, 4, 4, 4, 4])]"

definition growth_A_empty_B :: "(str, DataFrame) dict" where
  "growth_A_empty_B = [(school_A, sheet_of [1, 2, 3]), (school_B, sheet_of [])]"

text \<open>
  Environment files: a table with the four measurement columns, one row for each given
  temperature, and directories built from such files and a workbook.
\<close>

definition reading :: "real \<Rightarrow> row" where
  "reading t = [(col_temperature, Num t), (col_humidity, Num (t + 40)), (col_ph, Num 6), (col_ec, Num 1)]"

definition env_of :: "real list \<Rightarrow> DataFrame" where
  "env_of ts =
     \<lparr>columns = [col_temperature, col_humidity, col_ph, col_ec], rows = map reading ts\<rparr>"

definition csv_file :: "string \<Rightarrow> real list \<Rightarrow> entry" where
  "csv_file name ts = \<lparr>entry_name = ascii name, entry_content = Table (env_of ts)\<rparr>"

definition workbook :: "string \<Rightarrow> (str \<times> DataFrame) list \<Rightarrow> entry" where
  "workbook name sh = \<lparr>entry_name = ascii name, entry_content = Sheets sh\<rparr>"

definition dir_AB :: "entry list" where
  "dir_AB = [csv_file ''A_env.csv'' [20, 22], csv_file ''B_env.csv'' [24],
             workbook ''growth.xlsx'' growth_AB]"

definition dir_two_A :: "entry list" where
  "dir_two_A = [csv_file ''A_old.csv'' [20], csv_file ''B_env.csv'' [24],
                csv_file ''A_new.csv'' [30]]"

definition dir_names :: "entry list" where
  "dir_names = [csv_file ''C.csv'' [26], csv_file ''D_x.v2.csv'' [27], csv_file ''E_1.CSV'' [28],
                csv_file ''.csv'' [29], csv_file ''F_1.csv.bak'' [30]]"

definition dir_no_sheets :: "entry list" where
  "dir_no_sheets = [csv_file ''A_env.csv'' [20, 22], workbook ''growth.xlsx'' []]"

definition env_AB :: "(str, DataFrame) dict" where
  "env_AB = [(school_A, env_of [20, 22]), (school_B, env_of [24])]"

definition growth_A :: "(str, DataFrame) dict" where
  "growth_A = [(school_A, sheet_of [1, 2, 3])]"

text \<open>
  Two configured schools where the greater mean fresh weight is Songdo-go's, and four
  schools with one, two, three and four readings each.
\<close>

definition env_songdo :: "(str, DataFrame) dict" where
  "env_songdo = [(songdo, env_of [20]), (haneul, env_of [22])]"

definition growth_songdo :: "(str, DataFrame) dict" where
  "growth_songdo = [(songdo, sheet_of [3]), (haneul, sheet_of [1])]"

definition env_four :: "(str, DataFrame) dict" where
  "env_four = [(songdo, env_of [0]), (haneul, env_of [5, 5]), (ara, env_of [2, 2, 2]),
               (dongsan, env_of [1, 1, 1, 1])]"

text \<open>
  The mean over all pooled readings of a column: every non-missing value of every school
  counts once.
\<close>

definition pooled_mean :: "(str, DataFrame) dict \<Rightarrow> str \<Rightarrow> real" where
  "pooled_mean env_data c = arithmetic_mean (concat (map (\<lambda>(school, df). values_of df c) env_data))"

text \<open>
  A directory before and after a second environment file is added, and the name of
  Haneul-go in decomposed form (conjoining jamo), as a file system that stores names
  decomposed hands it out, with an environment file named so and one named in composed
  form.
\<close>

definition dir_A :: "entry list" where
  "dir_A = [csv_file ''A_env.csv'' [20, 22], workbook ''growth.xlsx'' growth_AB]"

definition haneul_nfd :: str where
  "haneul_nfd = [0x1112, 0x1161, 0x1102, 0x1173, 0x11AF, 0x1100, 0x1169]"

definition nfd_csv :: entry where
  "nfd_csv = \<lparr>entry_name = haneul_nfd @ ascii ''_EC2.csv'', entry_content = Table (env_of [22])\<rparr>"

definition nfc_csv :: entry where
  "nfc_csv = \<lparr>entry_name = haneul @ ascii ''_EC2.csv'', entry_content = Table (env_of [23])\<rparr>"

lemmas label_defs =
  ascii_def underscore_def dot_def col_fresh_weight_def col_leaf_count_def col_shoot_length_def
  col_school_def col_temperature_def col_humidity_def col_ph_def col_ec_def
  songdo_def haneul_def ara_def dongsan_def school_A_def school_B_def

lemmas table_defs =
  len_def cell_at_def getcol_def mean_def col_mean_def arithmetic_mean_def values_of_def
  numeric_col_def growth_table_def sheet_of_def specimen_def reading_def env_of_def
  env_table_def mean_of_def exact_def exact_add_def less_float64_def less_eq_float64_def

lemmas hangul_defs =
  hangul_nfc_def hangul_decompose_def is_L_def is_V_def is_T_def compose_LV_def
  SBase_def LBase_def VBase_def TBase_def LCount_def VCount_def TCount_def
  haneul_nfd_def nfd_csv_def nfc_csv_def

lemmas path_defs =
  suffix_def stem_def school_name_def csv_file_def workbook_def read_csv_def ExcelFile_def
  read_excel_def

section \<open>Properties of the table operations\<close>

lemma map_of_dict_set:
  "map_of (dict_set k v d) k' = (if k' = k then Some v else map_of d k')"
  by (induction d) auto

lemma dict_set_keys:
  "map fst (dict_set k v d) = (if k \<in> fst ` set d then map fst d else map fst d @ [k])"
  by (induction d) auto

lemma distinct_dict_set:
  "distinct (map fst d) \<Longrightarrow> distinct (map fst (dict_set k v d))"
  by (simp add: dict_set_keys)

lemma dict_set_not_Nil:
  "dict_set k v d \<noteq> []"
  by (cases d) auto

lemma find_SomeD:
  "find P xs = Some x \<Longrightarrow> x \<in> set xs \<and> P x"
  by (induction xs) (auto split: if_splits)

lemma argmax_from_None:
  "argmax_from i acc xs = None \<longleftrightarrow> acc = None \<and> (\<forall>x. Some x \<notin> set xs)"
  by (induction i acc xs rule: argmax_from.induct) auto

lemma argmax_from_upper:
  "argmax_from i acc xs = Some (k, m) \<Longrightarrow>
     (\<forall>x. Some x \<in> set xs \<longrightarrow> x \<le> m) \<and> (\<forall>j b. acc = Some (j, b) \<longrightarrow> b \<le> m)"
  by (induction i acc xs arbitrary: k m rule: argmax_from.induct)
     (fastforce split: if_splits)+

lemma argmax_from_first:
  "argmax_from i acc xs = Some (k, m) \<Longrightarrow>
     acc = Some (k, m) \<or>
     (\<exists>p. k = i + p \<and> p < length xs \<and> xs ! p = Some m \<and>
      (\<forall>j < p. \<forall>y. xs ! j = Some y \<longrightarrow> y < m) \<and>
      (\<forall>j b. acc = Some (j, b) \<longrightarrow> b < m))"
proof (induction i acc xs arbitrary: k m rule: argmax_from.induct)
  case (1 i acc)
  then show ?case by simp
next
  case (2 i acc xs)
  from 2 have "argmax_from (Suc i) acc xs = Some (k, m)" by simp
  from 2(1)[OF this] show ?case
  proof
    assume "acc = Some (k, m)" then show ?thesis by simp
  next
    assume "\<exists>p. k = Suc i + p \<and> p < length xs \<and> xs ! p = Some m \<and>
      (\<forall>j < p. \<forall>y. xs ! j = Some y \<longrightarrow> y < m) \<and>
      (\<forall>j b. acc = Some (j, b) \<longrightarrow> b < m)"
    then obtain p where p: "k = Suc i + p" "p < length xs" "xs ! p = Some m"
      "\<forall>j < p. \<forall>y. xs ! j = Some y \<longrightarrow> y < m" "\<forall>j b. acc = Some (j, b) \<longrightarrow> b < m"
      by blast
    have "\<forall>j < Suc p. \<forall>y. (None # xs) ! j = Some y \<longrightarrow> y < m"
      using p(4) by (auto simp: nth_Cons split: nat.splits)
    with p show ?thesis
      by (intro disjI2 exI[of _ "Suc p"]) simp
  qed
next
  case (3 i x xs)
  from 3 have a: "argmax_from (Suc i) (Some (i, x)) xs = Some (k, m)" by simp
  from 3(1)[OF a] show ?case
  proof
    assume "Some (i, x) = Some (k, m)"
    then show ?thesis by (intro disjI2 exI[of _ 0]) simp
  next
    assume "\<exists>p. k = Suc i + p \<and> p < length xs \<and> xs ! p = Some m \<and>
      (\<forall>j < p. \<forall>y. xs ! j = Some y \<longrightarrow> y < m) \<and>
      (\<forall>j b. Some (i, x) = Some (j, b) \<longrightarrow> b < m)"
    then obtain p where p: "k = Suc i + p" "p < length xs" "xs ! p = Some m"
      "\<forall>j < p. \<forall>y. xs ! j = Some y \<longrightarrow> y < m" "x < m"
      by blast
    have "\<forall>j < Suc p. \<forall>y. (Some x # xs) ! j = Some y \<longrightarrow> y < m"
      using p(4,5) by (auto simp: nth_Cons split: nat.splits)
    with p show ?thesis
      by (intro disjI2 exI[of _ "Suc p"]) simp
  qed
next
  case (4 i j m' x xs)
  show ?case
  proof (cases "m' < x")
    case True
    with 4 have a: "argmax_from (Suc i) (Some (i, x)) xs = Some (k, m)" by simp
    from 4(1)[OF True a] show ?thesis
    proof
      assume "Some (i, x) = Some (k, m)"
      with True show ?thesis by (intro disjI2 exI[of _ 0]) simp
    next
      assume "\<exists>p. k = Suc i + p \<and> p < length xs \<and> xs ! p = Some m \<and>
        (\<forall>j < p. \<forall>y. xs ! j = Some y \<longrightarrow> y < m) \<and>
        (\<forall>j b. Some (i, x) = Some (j, b) \<longrightarrow> b < m)"
      then obtain p where p: "k = Suc i + p" "p < length xs" "xs ! p = Some m"
        "\<forall>j < p. \<forall>y. xs ! j = Some y \<longrightarrow> y < m" "x < m"
        by blast
      have "\<forall>j < Suc p. \<forall>y. (Some x # xs) ! j = Some y \<longrightarrow> y < m"
        using p(4,5) by (auto simp: nth_Cons split: nat.splits)
      with p True show ?thesis
        by (intro disjI2 exI[of _ "Suc p"]) auto
    qed
  next
    case False
    with 4 have a: "argmax_from (Suc i) (Some (j, m')) xs = Some (k, m)" by simp
    from 4(2)[OF False a] show ?thesis
    proof
      assume "Some (j, m') = Some (k, m)"
      then show ?thesis by simp
    next
      assume "\<exists>p. k = Suc i + p \<and> p < length xs \<and> xs ! p = Some m \<and>
        (\<forall>j < p. \<forall>y. xs ! j = Some y \<longrightarrow> y < m) \<and>
        (\<forall>ja b. Some (j, m') = Some (ja, b) \<longrightarrow> b < m)"
      then obtain p where p: "k = Suc i + p" "p < length xs" "xs ! p = Some m"
        "\<forall>j < p. \<forall>y. xs ! j = Some y \<longrightarrow> y < m" "m' < m"
        by blast
      have "\<forall>j < Suc p. \<forall>y. (Some x # xs) ! j = Some y \<longrightarrow> y < m"
        using p(4,5) False by (auto simp: nth_Cons split: nat.splits)
      with p show ?thesis
        by (intro disjI2 exI[of _ "Suc p"]) auto
    qed
  qed
qed


lemma idxmax_first_maximum:
  assumes "idxmax xs = Inr i"
  shows "\<exists>m. i < length xs \<and> xs ! i = Some m \<and>
             (\<forall>j < length xs. \<forall>y. xs ! j = Some y \<longrightarrow> y \<le> m \<and> (j < i \<longrightarrow> y < m))"
proof -
  from assms obtain m where a: "argmax_from 0 None xs = Some (i, m)"
    by (auto simp: idxmax_def split: option.splits)
  from argmax_from_first[OF a] have f: "i < length xs" "xs ! i = Some m"
    "\<forall>j < i. \<forall>y. xs ! j = Some y \<longrightarrow> y < m"
    by auto
  from argmax_from_upper[OF a] have u: "\<forall>x. Some x \<in> set xs \<longrightarrow> x \<le> m"
    by simp
  have "\<forall>j < length xs. \<forall>y. xs ! j = Some y \<longrightarrow> y \<le> m"
    using u by (metis nth_mem)
  with f show ?thesis by blast
qed

lemma idxmax_defined:
  assumes "Some x \<in> set xs"
  shows "\<exists>i. idxmax xs = Inr i"
proof -
  from assms have "argmax_from 0 None xs \<noteq> None"
    by (auto simp: argmax_from_None)
  then show ?thesis
    by (auto simp: idxmax_def split: option.splits)
qed

lemma col_mean_numeric:
  "numeric_col df c \<Longrightarrow> col_mean fp df c = Inr (mean_of fp df c)"
  by (simp add: numeric_col_def col_mean_def getcol_def mean_def values_of_def mean_of_def)

lemma col_mean_Inr:
  "col_mean fp df c = Inr x \<Longrightarrow> numeric_col df c"
  by (auto simp: col_mean_def getcol_def mean_def numeric_col_def split: if_splits)

lemma growth_summary_tables:
  "\<forall>g \<in> set growth_data. growth_table (snd g) \<Longrightarrow>
     growth_summary fp growth_data = Inr (map (growth_row_of fp) growth_data)"
proof (induction growth_data)
  case Nil
  then show ?case by simp
next
  case (Cons g gs)
  obtain school df where g: "g = (school, df)" by (cases g)
  from Cons.prems g have t: "numeric_col df col_fresh_weight" "numeric_col df col_leaf_count"
    "numeric_col df col_shoot_length"
    by (simp_all add: growth_table_def)
  from Cons have "growth_summary fp gs = Inr (map (growth_row_of fp) gs)" by simp
  then show ?case
    by (simp add: g col_mean_numeric[OF t(1)] col_mean_numeric[OF t(2)]
        col_mean_numeric[OF t(3)] growth_row_of_def)
qed

lemma growth_summary_Inr:
  "growth_summary fp growth_data = Inr summary \<Longrightarrow> \<forall>g \<in> set growth_data. growth_table (snd g)"
proof (induction growth_data arbitrary: summary)
  case Nil
  then show ?case by simp
next
  case (Cons g gs)
  obtain school df where g: "g = (school, df)" by (cases g)
  from Cons.prems g obtain fw lc sl rs where r: "col_mean fp df col_fresh_weight = Inr fw"
    "col_mean fp df col_leaf_count = Inr lc" "col_mean fp df col_shoot_length = Inr sl"
    "growth_summary fp gs = Inr rs"
    by (auto split: sum.splits)
  from r(1,2,3) have "growth_table df"
    by (simp add: growth_table_def col_mean_Inr)
  with Cons.IH[OF r(4)] g show ?case
    by simp
qed

lemma best_group_tables:
  assumes "\<forall>g \<in> set growth_data. growth_table (snd g)"
    and "g \<in> set growth_data" and "mean_of fp (snd g) col_fresh_weight = Some m0"
  shows "\<exists>i m. i < length growth_data \<and>
           best_group fp growth_data = Inr (growth_row_of fp (growth_data ! i)) \<and>
           mean_of fp (snd (growth_data ! i)) col_fresh_weight = Some m \<and>
           (\<forall>j < length growth_data. \<forall>y.
              mean_of fp (snd (growth_data ! j)) col_fresh_weight = Some y \<longrightarrow>
                y \<le> m \<and> (j < i \<longrightarrow> y < m))"
proof -
  let ?mf = "\<lambda>g. mean_of fp (snd g) col_fresh_weight"
  let ?summary = "map (growth_row_of fp) growth_data"
  let ?means = "map mean_fresh_weight ?summary"
  have summary: "growth_summary fp growth_data = Inr ?summary"
    by (rule growth_summary_tables[OF assms(1)])
  have means: "?means = map ?mf growth_data"
    by (simp add: growth_row_of_def)
  from assms(2,3) have "Some m0 \<in> set ?means" unfolding means by force
  from idxmax_defined[OF this] obtain i where i: "idxmax ?means = Inr i" by blast
  from idxmax_first_maximum[OF i] obtain m where m: "i < length ?means" "?means ! i = Some m"
    "\<forall>j < length ?means. \<forall>y. ?means ! j = Some y \<longrightarrow> y \<le> m \<and> (j < i \<longrightarrow> y < m)"
    by blast
  from m(1) have il: "i < length growth_data" by simp
  have nth: "\<And>j. j < length growth_data \<Longrightarrow> ?means ! j = ?mf (growth_data ! j)"
    unfolding means by simp
  from m(2) nth[OF il] have mi: "?mf (growth_data ! i) = Some m" by simp
  have best: "best_group fp growth_data = Inr (growth_row_of fp (growth_data ! i))"
    using summary i il by (simp add: best_group_def best_of_def loc_def)
  have le: "\<forall>j < length growth_data. \<forall>y. ?mf (growth_data ! j) = Some y \<longrightarrow>
      y \<le> m \<and> (j < i \<longrightarrow> y < m)"
    using m(3) nth by simp
  from il best mi le show ?thesis
    by (intro exI[of _ i] exI[of _ m] conjI)
qed

lemma best_group_Inr:
  assumes "best_group fp growth_data = Inr b"
  shows "(\<forall>g \<in> set growth_data. growth_table (snd g)) \<and>
         (\<exists>g \<in> set growth_data. \<exists>m. mean_of fp (snd g) col_fresh_weight = Some m)"
proof -
  from assms obtain summary where s: "growth_summary fp growth_data = Inr summary"
    "best_of summary = Inr b"
    by (auto simp: best_group_def split: sum.splits)
  note tables = growth_summary_Inr[OF s(1)]
  from growth_summary_tables[OF tables, of fp] s(1)
  have summary: "summary = map (growth_row_of fp) growth_data"
    by simp
  from s(2) obtain i where i: "idxmax (map mean_fresh_weight summary) = Inr i"
    by (auto simp: best_of_def split: sum.splits)
  from idxmax_first_maximum[OF i] obtain m where m: "i < length (map mean_fresh_weight summary)"
    "map mean_fresh_weight summary ! i = Some m"
    by blast
  from m(1) have il: "i < length growth_data"
    by (simp add: summary)
  from m(2) il have "mean_of fp (snd (growth_data ! i)) col_fresh_weight = Some m"
    by (simp add: summary growth_row_of_def)
  with il have "\<exists>g \<in> set growth_data. \<exists>m. mean_of fp (snd g) col_fresh_weight = Some m"
    using nth_mem by blast
  with tables show ?thesis
    by simp
qed

lemma overview_loop_tables:
  "\<forall>g \<in> set env_data. env_table (snd g) \<Longrightarrow>
     overview_loop fp env_data growth_data =
       Inr (map (\<lambda>g. (overview_row_of growth_data (fst g),
                       mean_of fp (snd g) col_temperature, mean_of fp (snd g) col_humidity)) env_data)"
proof (induction env_data)
  case Nil
  then show ?case by simp
next
  case (Cons g gs)
  obtain school df where g: "g = (school, df)" by (cases g)
  from Cons.prems g have t: "numeric_col df col_temperature" "numeric_col df col_humidity"
    by (simp_all add: env_table_def)
  from Cons have "overview_loop fp gs growth_data =
       Inr (map (\<lambda>g. (overview_row_of growth_data (fst g),
                       mean_of fp (snd g) col_temperature, mean_of fp (snd g) col_humidity)) gs)"
    by simp
  then show ?case
    by (simp add: g col_mean_numeric[OF t(1)] col_mean_numeric[OF t(2)] overview_row_of_def)
qed

lemma average_defined:
  "xs \<noteq> [] \<Longrightarrow> average fp xs = Inr (fdiv fp (py_sum fp xs) (length xs))"
  by (simp add: average_def py_truediv_def)

lemma tab1_tables:
  assumes "env_data \<noteq> []" and "\<forall>g \<in> set env_data. env_table (snd g)"
  shows "tab1 fp env_data growth_data =
          Inr \<lparr>overview_table = map (\<lambda>g. overview_row_of growth_data (fst g)) env_data,
               metric_total_count = sum_list (map (\<lambda>g. specimen_count growth_data (fst g)) env_data),
               metric_temperature =
                 fdiv fp (py_sum fp (map (\<lambda>g. mean_of fp (snd g) col_temperature) env_data))
                   (length env_data),
               metric_humidity =
                 fdiv fp (py_sum fp (map (\<lambda>g. mean_of fp (snd g) col_humidity) env_data))
                   (length env_data),
               metric_best_ec = best_ec_label\<rparr>"
proof -
  let ?rs = "map (\<lambda>g. (overview_row_of growth_data (fst g),
                        mean_of fp (snd g) col_temperature, mean_of fp (snd g) col_humidity)) env_data"
  let ?ts = "map (\<lambda>g. mean_of fp (snd g) col_temperature) env_data"
  let ?hs = "map (\<lambda>g. mean_of fp (snd g) col_humidity) env_data"
  have l: "overview_loop fp env_data growth_data = Inr ?rs"
    by (rule overview_loop_tables[OF assms(2)])
  have ts: "map (\<lambda>(r, t, h). t) ?rs = ?ts" and hs: "map (\<lambda>(r, t, h). h) ?rs = ?hs"
    by simp_all
  from assms(1) have nt: "?ts \<noteq> []" and nh: "?hs \<noteq> []"
    by simp_all
  have at: "average fp (map (\<lambda>(r, t, h). t) ?rs) = Inr (fdiv fp (py_sum fp ?ts) (length env_data))"
    unfolding ts using average_defined[OF nt, of fp] by simp
  have ah: "average fp (map (\<lambda>(r, t, h). h) ?rs) = Inr (fdiv fp (py_sum fp ?hs) (length env_data))"
    unfolding hs using average_defined[OF nh, of fp] by simp
  have "tab1 fp env_data growth_data =
          Inr \<lparr>overview_table = map (\<lambda>(r, t, h). r) ?rs,
               metric_total_count = sum_list (map (\<lambda>(r, t, h). o_count r) ?rs),
               metric_temperature = fdiv fp (py_sum fp ?ts) (length env_data),
               metric_humidity = fdiv fp (py_sum fp ?hs) (length env_data),
               metric_best_ec = best_ec_label\<rparr>"
    by (simp only: tab1_def l at ah sum.case)
  then show ?thesis
    by (simp add: o_def overview_row_of_def)
qed

lemma avg_rows_tables:
  "\<forall>g \<in> set env_data. env_table (snd g) \<Longrightarrow>
     avg_rows fp env_data = Inr (map (env_row_of fp) env_data)"
proof (induction env_data)
  case Nil
  then show ?case by simp
next
  case (Cons g gs)
  obtain school df where g: "g = (school, df)" by (cases g)
  from Cons.prems g have t: "numeric_col df col_temperature" "numeric_col df col_humidity"
    "numeric_col df col_ph" "numeric_col df col_ec"
    by (simp_all add: env_table_def)
  from Cons have "avg_rows fp gs = Inr (map (env_row_of fp) gs)"
    by simp
  then show ?case
    by (simp add: g col_mean_numeric[OF t(1)] col_mean_numeric[OF t(2)]
        col_mean_numeric[OF t(3)] col_mean_numeric[OF t(4)] env_row_of_def)
qed

lemma tab3_tables:
  assumes "\<forall>g \<in> set growth_data. growth_table (snd g)"
    and "g \<in> set growth_data" and "mean_of fp (snd g) col_fresh_weight = Some m0"
  shows "\<exists>t. tab3 fp growth_data = Inr t \<and> summary_df t = map (growth_row_of fp) growth_data"
proof -
  have s: "growth_summary fp growth_data = Inr (map (growth_row_of fp) growth_data)"
    by (rule growth_summary_tables[OF assms(1)])
  from best_group_tables[OF assms] obtain b where "best_group fp growth_data = Inr b"
    by blast
  with s have b: "best_of (map (growth_row_of fp) growth_data) = Inr b"
    by (simp add: best_group_def)
  from assms(2) have "growth_data \<noteq> []"
    by auto
  then obtain c where c: "concat_df growth_data = Inr c"
    by (auto simp: concat_df_def concat_frames_def)
  show ?thesis
    by (simp add: tab3_def s b c)
qed

lemma specimen_count_absent:
  "school \<notin> fst ` set growth_data \<Longrightarrow> specimen_count growth_data school = 0"
proof -
  assume "school \<notin> fst ` set growth_data"
  then have "map_of growth_data school = None"
    by (simp add: map_of_eq_None_iff)
  then show ?thesis
    by (simp add: specimen_count_def)
qed

lemma time_series_all:
  "time_series all_schools env_data = Inr ()"
  by (simp add: time_series_def)

lemma time_series_selected:
  "selected_school \<noteq> all_schools \<Longrightarrow> \<exists>e. time_series selected_school env_data = Inl e"
  by (simp add: time_series_def split: option.splits)

section \<open>The best group\<close>

text \<open>
  The selection follows the means as the float64 arithmetic delivers them. For two
  sheets, when the computed mean of the second is strictly greater than that of the
  first, the second is selected, also when the two means are equal over the reals and
  differ by rounding only, and also when the greater one is an infinity that an
  overflowing sum produced.
\<close>

lemma best_group_follows_computed_means:
  assumes "growth_table dfa" and "growth_table dfb"
    and "values_of dfa col_fresh_weight \<noteq> []" and "values_of dfb col_fresh_weight \<noteq> []"
    and "fmean fp (values_of dfb col_fresh_weight) = Some y"
    and "fmean fp (values_of dfa col_fresh_weight) = Some x"
    and "y < x"
  shows "best_group fp [(sb, dfb), (sa, dfa)] = Inr (growth_row_of fp (sa, dfa))"
proof -
  have s: "growth_summary fp [(sb, dfb), (sa, dfa)] =
      Inr [growth_row_of fp (sb, dfb), growth_row_of fp (sa, dfa)]"
    using growth_summary_tables[of "[(sb, dfb), (sa, dfa)]" fp] assms(1,2) by simp
  have m: "mean_fresh_weight (growth_row_of fp (sb, dfb)) = Some y"
    "mean_fresh_weight (growth_row_of fp (sa, dfa)) = Some x"
    using assms(3,4,5,6) by (simp_all add: growth_row_of_def mean_of_def)
  have "best_group fp [(sb, dfb), (sa, dfa)] =
      best_of [growth_row_of fp (sb, dfb), growth_row_of fp (sa, dfa)]"
    by (simp only: best_group_def s sum.case)
  also have "\<dots> = Inr (growth_row_of fp (sa, dfa))"
    using assms(7) by (simp add: best_of_def idxmax_def m loc_def)
  finally show ?thesis .
qed

text \<open>
  C1. Let every group of the growth data have at least one non-missing fresh weight, so
  that the mean fresh weight of a group is the float64 mean \<open>fmean fp\<close> of its
  non-missing values, whatever the rounding \<open>fp\<close>. When every sheet has its three
  numeric columns and some mean is not NaN, a best row is selected. Whenever a best row
  is selected, it is the row of a group whose mean fresh weight, as computed, is greater
  than or equal to the computed mean of every group and strictly greater than that of
  every group before it in iteration order: among several maxima the first is chosen.
\<close>

theorem best_group_first_maximum:
  assumes "\<forall>(school, df) \<in> set growth_data. values_of df col_fresh_weight \<noteq> []"
  shows "((\<forall>(school, df) \<in> set growth_data. growth_table df) \<and>
          (\<exists>(school, df) \<in> set growth_data. fmean fp (values_of df col_fresh_weight) \<noteq> None) \<longrightarrow>
            (\<exists>b. best_group fp growth_data = Inr b)) \<and>
         (\<forall>b. best_group fp growth_data = Inr b \<longrightarrow>
            (\<exists>i < length growth_data. \<exists>m.
               g_school b = fst (growth_data ! i) \<and>
               mean_fresh_weight b = Some m \<and>
               fmean fp (values_of (snd (growth_data ! i)) col_fresh_weight) = Some m \<and>
               (\<forall>j < length growth_data. \<forall>y.
                  fmean fp (values_of (snd (growth_data ! j)) col_fresh_weight) = Some y \<longrightarrow>
                    y \<le> m \<and> (j < i \<longrightarrow> y < m))))"
proof (intro conjI impI allI)
  from assms have mo: "\<And>g. g \<in> set growth_data \<Longrightarrow>
      mean_of fp (snd g) col_fresh_weight = fmean fp (values_of (snd g) col_fresh_weight)"
    by (auto simp: mean_of_def)
  {
    assume a: "(\<forall>(school, df) \<in> set growth_data. growth_table df) \<and>
          (\<exists>(school, df) \<in> set growth_data. fmean fp (values_of df col_fresh_weight) \<noteq> None)"
    then have tables: "\<forall>g \<in> set growth_data. growth_table (snd g)"
      by auto
    from a obtain g m0 where g: "g \<in> set growth_data"
      "fmean fp (values_of (snd g) col_fresh_weight) = Some m0"
      by auto
    from g mo have "mean_of fp (snd g) col_fresh_weight = Some m0"
      by simp
    from best_group_tables[OF tables g(1) this] show "\<exists>b. best_group fp growth_data = Inr b"
      by blast
  }
  {
    fix b
    assume b: "best_group fp growth_data = Inr b"
    from best_group_Inr[OF b] obtain g m0 where tables: "\<forall>g \<in> set growth_data. growth_table (snd g)"
      and g: "g \<in> set growth_data" "mean_of fp (snd g) col_fresh_weight = Some m0"
      by blast
    from best_group_tables[OF tables g] obtain i m where i: "i < length growth_data"
      "best_group fp growth_data = Inr (growth_row_of fp (growth_data ! i))"
      "mean_of fp (snd (growth_data ! i)) col_fresh_weight = Some m"
      "\<forall>j < length growth_data. \<forall>y.
          mean_of fp (snd (growth_data ! j)) col_fresh_weight = Some y \<longrightarrow>
            y \<le> m \<and> (j < i \<longrightarrow> y < m)"
      by blast
    from b i(2) have be: "b = growth_row_of fp (growth_data ! i)"
      by simp
    have s: "g_school b = fst (growth_data ! i)"
      by (simp add: be growth_row_of_def)
    have mb: "mean_fresh_weight b = Some m"
      using i(3) by (simp add: be growth_row_of_def)
    have mi: "fmean fp (values_of (snd (growth_data ! i)) col_fresh_weight) = Some m"
      using i(1,3) mo by simp
    have le: "\<forall>j < length growth_data. \<forall>y.
          fmean fp (values_of (snd (growth_data ! j)) col_fresh_weight) = Some y \<longrightarrow>
            y \<le> m \<and> (j < i \<longrightarrow> y < m)"
      using i(4) mo by simp
    from i(1) s mb mi le
    show "\<exists>i < length growth_data. \<exists>m.
               g_school b = fst (growth_data ! i) \<and>
               mean_fresh_weight b = Some m \<and>
               fmean fp (values_of (snd (growth_data ! i)) col_fresh_weight) = Some m \<and>
               (\<forall>j < length growth_data. \<forall>y.
                  fmean fp (values_of (snd (growth_data ! j)) col_fresh_weight) = Some y \<longrightarrow>
                    y \<le> m \<and> (j < i \<longrightarrow> y < m))"
      by (intro exI[of _ i] exI[of _ m] conjI)
  }
qed

theorem best_group_first_maximum_witness:
  "list_all (\<lambda>(school, df). values_of df col_fresh_weight \<noteq> []) growth_AB \<and>
   best_group exact growth_AB =
     Inr \<lparr>g_school = school_B, g_ec = None, mean_fresh_weight = Some (Finite 4),
          mean_leaf_count = Some (Finite 4), mean_shoot_length = Some (Finite 30), g_count = 5\<rparr> \<and>
   (\<exists>i < length growth_AB. fst (growth_AB ! i) = school_B \<and>
      fmean exact (values_of (snd (growth_AB ! i)) col_fresh_weight) = Some (Finite 4))"
proof -
  let ?b = "\<lparr>g_school = school_B, g_ec = None, mean_fresh_weight = Some (Finite 4),
          mean_leaf_count = Some (Finite 4), mean_shoot_length = Some (Finite 30), g_count = 5\<rparr>"
  have h: "\<forall>(school, df) \<in> set growth_AB. values_of df col_fresh_weight \<noteq> []"
    by (simp add: growth_AB_def table_defs label_defs)
  have e: "best_group exact growth_AB = Inr ?b"
    by (simp add: best_group_def best_of_def idxmax_def loc_def growth_AB_def
        ec_conditions_def table_defs label_defs)
  from best_group_first_maximum[OF h, of exact] e obtain i m where i: "i < length growth_AB"
    "g_school ?b = fst (growth_AB ! i)" "mean_fresh_weight ?b = Some m"
    "fmean exact (values_of (snd (growth_AB ! i)) col_fresh_weight) = Some m"
    by blast
  then have "\<exists>i < length growth_AB. fst (growth_AB ! i) = school_B \<and>
      fmean exact (values_of (snd (growth_AB ! i)) col_fresh_weight) = Some (Finite 4)"
    by auto
  with h e show ?thesis
    by (simp add: list_all_iff)
qed

section \<open>Group means\<close>

text \<open>
  C2, as the code has it. When every sheet has the three numeric columns, the summary is
  produced without an error. Whenever the summary is produced, it has one row per group
  in iteration order, and a group's mean fresh weight is the float64 mean of the
  non-missing values of its fresh-weight column; when the column has no non-missing
  value, and so for a sheet without rows, it is NaN. Without rounding the mean is the
  sum of the non-missing values divided by their number.
\<close>

theorem group_mean_fresh_weight:
  "((\<forall>(school, df) \<in> set growth_data. growth_table df) \<longrightarrow>
      (\<exists>s. growth_summary fp growth_data = Inr s)) \<and>
   (growth_summary fp growth_data = Inr summary \<longrightarrow>
      length summary = length growth_data \<and>
      (\<forall>i < length growth_data.
         g_school (summary ! i) = fst (growth_data ! i) \<and>
         mean_fresh_weight (summary ! i) =
           (if values_of (snd (growth_data ! i)) col_fresh_weight = [] then None
            else fmean fp (values_of (snd (growth_data ! i)) col_fresh_weight)) \<and>
         (rows (snd (growth_data ! i)) = [] \<longrightarrow> mean_fresh_weight (summary ! i) = None))) \<and>
   (growth_summary exact growth_data = Inr summary' \<longrightarrow>
      length summary' = length growth_data \<and>
      (\<forall>i < length growth_data.
         mean_fresh_weight (summary' ! i) =
           (if values_of (snd (growth_data ! i)) col_fresh_weight = [] then None
            else Some (Finite (sum_list (values_of (snd (growth_data ! i)) col_fresh_weight)
                       / real (length (values_of (snd (growth_data ! i)) col_fresh_weight)))))))"
proof (intro conjI impI)
  assume "\<forall>(school, df) \<in> set growth_data. growth_table df"
  then have "\<forall>g \<in> set growth_data. growth_table (snd g)"
    by auto
  from growth_summary_tables[OF this] show "\<exists>s. growth_summary fp growth_data = Inr s"
    by blast
next
  assume s: "growth_summary fp growth_data = Inr summary"
  from growth_summary_tables[OF growth_summary_Inr[OF s], of fp] s
  have m: "summary = map (growth_row_of fp) growth_data"
    by simp
  then show "length summary = length growth_data"
    by simp
  show "\<forall>i < length growth_data.
          g_school (summary ! i) = fst (growth_data ! i) \<and>
          mean_fresh_weight (summary ! i) =
            (if values_of (snd (growth_data ! i)) col_fresh_weight = [] then None
             else fmean fp (values_of (snd (growth_data ! i)) col_fresh_weight)) \<and>
          (rows (snd (growth_data ! i)) = [] \<longrightarrow> mean_fresh_weight (summary ! i) = None)"
    unfolding m by (simp add: growth_row_of_def mean_of_def values_of_def)
next
  assume s: "growth_summary exact growth_data = Inr summary'"
  from growth_summary_tables[OF growth_summary_Inr[OF s], of exact] s
  have m: "summary' = map (growth_row_of exact) growth_data"
    by simp
  then show "length summary' = length growth_data"
    by simp
  show "\<forall>i < length growth_data.
         mean_fresh_weight (summary' ! i) =
           (if values_of (snd (growth_data ! i)) col_fresh_weight = [] then None
            else Some (Finite (sum_list (values_of (snd (growth_data ! i)) col_fresh_weight)
                       / real (length (values_of (snd (growth_data ! i)) col_fresh_weight)))))"
    unfolding m by (simp add: growth_row_of_def mean_of_def exact_def arithmetic_mean_def)
qed

theorem group_mean_fresh_weight_witness:
  "list_all (\<lambda>(school, df). growth_table df) growth_AB \<and>
   (\<exists>summary. growth_summary exact growth_AB = Inr summary \<and> length summary = 2 \<and>
      mean_fresh_weight (summary ! 0) = Some (Finite 2) \<and>
      mean_fresh_weight (summary ! 1) = Some (Finite 4))"
proof -
  have h: "\<forall>(school, df) \<in> set growth_AB. growth_table df"
    by (simp add: growth_AB_def table_defs label_defs)
  from group_mean_fresh_weight[of growth_AB exact] h obtain summary
    where s: "growth_summary exact growth_AB = Inr summary"
    by blast
  from group_mean_fresh_weight[of growth_AB exact summary summary] s
  have lm: "length summary = length growth_AB \<and>
      (\<forall>i < length growth_AB.
         mean_fresh_weight (summary ! i) =
           (if values_of (snd (growth_AB ! i)) col_fresh_weight = [] then None
            else Some (Finite (sum_list (values_of (snd (growth_AB ! i)) col_fresh_weight)
                       / real (length (values_of (snd (growth_AB ! i)) col_fresh_weight))))))"
    by (rule conjunct2[THEN conjunct2, THEN mp])
  then have l: "length summary = length growth_AB"
    and m: "\<forall>i < length growth_AB.
         mean_fresh_weight (summary ! i) =
           (if values_of (snd (growth_AB ! i)) col_fresh_weight = [] then None
            else Some (Finite (sum_list (values_of (snd (growth_AB ! i)) col_fresh_weight)
                       / real (length (values_of (snd (growth_AB ! i)) col_fresh_weight)))))"
    by (rule conjunct1, rule conjunct2)
  from l have l2: "length summary = 2"
    by (simp add: growth_AB_def)
  from m[rule_format, of 0] have m0: "mean_fresh_weight (summary ! 0) = Some (Finite 2)"
    by (simp add: growth_AB_def table_defs label_defs)
  from m[rule_format, of 1] have m1: "mean_fresh_weight (summary ! 1) = Some (Finite 4)"
    by (simp add: growth_AB_def table_defs label_defs)
  from s l2 m0 m1 have "\<exists>summary. growth_summary exact growth_AB = Inr summary \<and>
      length summary = 2 \<and> mean_fresh_weight (summary ! 0) = Some (Finite 2) \<and>
      mean_fresh_weight (summary ! 1) = Some (Finite 4)"
    by (intro exI[of _ summary] conjI)
  with h show ?thesis
    by (simp add: list_all_iff)
qed

text \<open>
  The claim asks for an explicit no-data marker in place of NaN for an empty sheet. On
  school A with three specimens and school B with an empty sheet, the summary row of B
  holds NaN in all three means.
\<close>

theorem empty_sheet_mean_is_nan:
  "growth_summary exact growth_A_empty_B =
     Inr [\<lparr>g_school = school_A, g_ec = None, mean_fresh_weight = Some (Finite 2),
            mean_leaf_count = Some (Finite 4), mean_shoot_length = Some (Finite 30), g_count = 3\<rparr>,
          \<lparr>g_school = school_B, g_ec = None, mean_fresh_weight = None,
            mean_leaf_count = None, mean_shoot_length = None, g_count = 0\<rparr>]"
  by (simp add: growth_A_empty_B_def table_defs label_defs ec_conditions_def)

section \<open>The startup check\<close>

lemma school_files_loop_Nil:
  "school_files_loop data_dir d = [] \<longleftrightarrow>
     d = [] \<and> \<not> (\<exists>f \<in> set data_dir. suffix (entry_name f) = ascii ''.csv'')"
  by (induction data_dir arbitrary: d) (auto simp: dict_set_not_Nil)

lemma env_data_loop_Nil:
  "env_data_loop sf acc = Inr env \<Longrightarrow> env = [] \<longleftrightarrow> sf = [] \<and> acc = []"
proof (induction sf arbitrary: acc)
  case Nil
  then show ?case by auto
next
  case (Cons p ps)
  obtain school path where p: "p = (school, path)" by (cases p)
  from Cons.prems p obtain df where "env_data_loop ps (dict_set school df acc) = Inr env"
    by (auto split: sum.splits)
  from Cons.IH[OF this] show ?case
    by (simp add: dict_set_not_Nil)
qed

lemma growth_data_loop_Nil:
  "growth_data_loop sh names acc = Inr g \<Longrightarrow> g = [] \<longleftrightarrow> names = [] \<and> acc = []"
proof (induction names arbitrary: acc)
  case Nil
  then show ?case by auto
next
  case (Cons n ns)
  from Cons.prems obtain df where "growth_data_loop sh ns (dict_set n df acc) = Inr g"
    by (auto split: sum.splits)
  from Cons.IH[OF this] show ?case
    by (simp add: dict_set_not_Nil)
qed

lemma load_environment_data_Nil:
  "load_environment_data data_dir = Inr env \<Longrightarrow>
     env = [] \<longleftrightarrow> \<not> (\<exists>f \<in> set data_dir. suffix (entry_name f) = ascii ''.csv'')"
  by (auto simp: load_environment_data_def school_files_loop_Nil dest: env_data_loop_Nil)

lemma load_growth_data_None:
  "load_growth_data data_dir = Inr None \<longleftrightarrow>
     \<not> (\<exists>f \<in> set data_dir. suffix (entry_name f) = ascii ''.xlsx'')"
proof (cases "find (\<lambda>f. suffix (entry_name f) = ascii ''.xlsx'') data_dir")
  case None
  then have "load_growth_data data_dir = Inr None"
    by (simp add: load_growth_data_def)
  moreover from None have "\<not> (\<exists>f \<in> set data_dir. suffix (entry_name f) = ascii ''.xlsx'')"
    by (simp add: find_None_iff)
  ultimately show ?thesis
    by simp
next
  case (Some x)
  from find_SomeD[OF Some] have "\<exists>f \<in> set data_dir. suffix (entry_name f) = ascii ''.xlsx''"
    by blast
  moreover from Some have "load_growth_data data_dir \<noteq> Inr None"
    by (simp add: load_growth_data_def split: sum.splits)
  ultimately show ?thesis
    by simp
qed

lemma growth_data_loop_all_sheets:
  "growth_data_loop sh (map fst sh) [] = Inr [] \<longleftrightarrow> sh = []"
proof
  assume "growth_data_loop sh (map fst sh) [] = Inr []"
  from growth_data_loop_Nil[OF this] show "sh = []"
    by simp
next
  assume "sh = []"
  then show "growth_data_loop sh (map fst sh) [] = Inr []"
    by simp
qed

lemma load_growth_data_empty:
  "load_growth_data data_dir = Inr (Some []) \<longleftrightarrow>
     (\<exists>f. find (\<lambda>f. suffix (entry_name f) = ascii ''.xlsx'') data_dir = Some f \<and>
          entry_content f = Sheets [])"
proof (cases "find (\<lambda>f. suffix (entry_name f) = ascii ''.xlsx'') data_dir")
  case None
  then show ?thesis
    by (simp add: load_growth_data_def)
next
  case (Some x)
  show ?thesis
  proof (cases "entry_content x")
    case (Sheets sh)
    have "load_growth_data data_dir = Inr (Some []) \<longleftrightarrow> growth_data_loop sh (map fst sh) [] = Inr []"
      using Some Sheets by (simp add: load_growth_data_def ExcelFile_def split: sum.splits)
    then show ?thesis
      using Some Sheets by (simp add: growth_data_loop_all_sheets)
  next
    case (Table df)
    then show ?thesis
      using Some by (simp add: load_growth_data_def ExcelFile_def)
  next
    case Unreadable
    then show ?thesis
      using Some by (simp add: load_growth_data_def ExcelFile_def)
  qed
qed

lemma render_not_fatal:
  "render fp selected_school env_data g \<noteq> Inr Fatal_error"
  by (simp add: render_def split: sum.splits)

lemma after_loading_fatal:
  "after_loading fp selected_school env_data growth_data = Inr Fatal_error \<longleftrightarrow>
     startup_stop env_data growth_data"
  by (simp add: after_loading_def render_not_fatal split: option.splits)
    (simp add: startup_stop_def)

lemma script_fresh_process:
  "load_environment_data data_dir = Inr env_data \<Longrightarrow>
   load_growth_data data_dir = Inr growth_data \<Longrightarrow>
     script fp selected_school fresh_process data_dir =
       (after_loading fp selected_school env_data growth_data,
        \<lparr>env_slot = Some env_data, growth_slot = Some growth_data\<rparr>)"
  by (simp add: script_def cache_data_def fresh_process_def)

text \<open>
  C3, as the code has it. Take a directory on which both loaders return, in a process
  with empty caches, with any sidebar choice and any rounding. The run shows the fatal error, and nothing else, exactly when there
  is no entry with the suffix \<open>.csv\<close>, or no entry with the suffix \<open>.xlsx\<close>, or the
  growth loader returned an empty mapping; the last happens exactly when the first
  workbook of the listing has no sheets. The environment mapping is empty exactly when
  no entry has the suffix \<open>.csv\<close>, and the growth loader returns \<open>None\<close> exactly when
  no entry has the suffix \<open>.xlsx\<close>. In every other case the run goes on to the tabs.
\<close>

theorem startup_fatal_iff:
  assumes "load_environment_data data_dir = Inr env_data"
    and "load_growth_data data_dir = Inr growth_data"
  shows "(fst (script fp selected_school fresh_process data_dir) = Inr Fatal_error \<longleftrightarrow>
            \<not> (\<exists>f \<in> set data_dir. suffix (entry_name f) = ascii ''.csv'') \<or>
            \<not> (\<exists>f \<in> set data_dir. suffix (entry_name f) = ascii ''.xlsx'') \<or>
            growth_data = Some []) \<and>
         (growth_data = Some [] \<longleftrightarrow>
            (\<exists>f. find (\<lambda>f. suffix (entry_name f) = ascii ''.xlsx'') data_dir = Some f \<and>
                 entry_content f = Sheets [])) \<and>
         (env_data = [] \<longleftrightarrow> \<not> (\<exists>f \<in> set data_dir. suffix (entry_name f) = ascii ''.csv'')) \<and>
         (growth_data = None \<longleftrightarrow> \<not> (\<exists>f \<in> set data_dir. suffix (entry_name f) = ascii ''.xlsx'')) \<and>
         (fst (script fp selected_school fresh_process data_dir) \<noteq> Inr Fatal_error \<longrightarrow>
            (\<exists>g. growth_data = Some g \<and>
                 fst (script fp selected_school fresh_process data_dir) =
                   render fp selected_school env_data g))"
proof -
  have e: "env_data = [] \<longleftrightarrow> \<not> (\<exists>f \<in> set data_dir. suffix (entry_name f) = ascii ''.csv'')"
    by (rule load_environment_data_Nil[OF assms(1)])
  have n: "growth_data = None \<longleftrightarrow> \<not> (\<exists>f \<in> set data_dir. suffix (entry_name f) = ascii ''.xlsx'')"
    using load_growth_data_None[of data_dir] assms(2) by simp
  have z: "growth_data = Some [] \<longleftrightarrow>
            (\<exists>f. find (\<lambda>f. suffix (entry_name f) = ascii ''.xlsx'') data_dir = Some f \<and>
                 entry_content f = Sheets [])"
    using load_growth_data_empty[of data_dir] assms(2) by simp
  have s: "fst (script fp selected_school fresh_process data_dir) =
      after_loading fp selected_school env_data growth_data"
    by (simp add: script_fresh_process[OF assms])
  have stop: "startup_stop env_data growth_data \<longleftrightarrow>
      env_data = [] \<or> growth_data = None \<or> growth_data = Some []"
    by (simp add: startup_stop_def split: option.splits)
  have f: "fst (script fp selected_school fresh_process data_dir) = Inr Fatal_error \<longleftrightarrow>
            \<not> (\<exists>f \<in> set data_dir. suffix (entry_name f) = ascii ''.csv'') \<or>
            \<not> (\<exists>f \<in> set data_dir. suffix (entry_name f) = ascii ''.xlsx'') \<or>
            growth_data = Some []"
    unfolding s after_loading_fatal stop e n ..
  have p: "fst (script fp selected_school fresh_process data_dir) \<noteq> Inr Fatal_error \<longrightarrow>
            (\<exists>g. growth_data = Some g \<and>
                 fst (script fp selected_school fresh_process data_dir) =
                   render fp selected_school env_data g)"
    unfolding s by (auto simp: after_loading_def split: option.splits)
  from f z e n p show ?thesis
    by (intro conjI)
qed

theorem startup_fatal_iff_witness:
  "load_environment_data dir_AB = Inr env_AB \<and>
   load_growth_data dir_AB = Inr (Some growth_AB) \<and>
   fst (script exact all_schools fresh_process dir_AB) = render exact all_schools env_AB growth_AB \<and>
   fst (script exact all_schools fresh_process dir_AB) \<noteq> Inr Fatal_error"
proof -
  have h1: "load_environment_data dir_AB = Inr env_AB"
    by (simp add: load_environment_data_def dir_AB_def env_AB_def path_defs label_defs)
  have h2: "load_growth_data dir_AB = Inr (Some growth_AB)"
    by (simp add: load_growth_data_def dir_AB_def growth_AB_def path_defs label_defs)
  have x: "\<exists>f \<in> set dir_AB. suffix (entry_name f) = ascii ''.xlsx''"
    by (simp add: dir_AB_def path_defs label_defs)
  have c: "\<exists>f \<in> set dir_AB. suffix (entry_name f) = ascii ''.csv''"
    by (simp add: dir_AB_def path_defs label_defs)
  have g: "Some growth_AB \<noteq> Some []"
    by (simp add: growth_AB_def)
  from startup_fatal_iff[OF h1 h2, of exact all_schools] x c g
  have "fst (script exact all_schools fresh_process dir_AB) \<noteq> Inr Fatal_error"
    and "\<exists>g. Some growth_AB = Some g \<and>
           fst (script exact all_schools fresh_process dir_AB) = render exact all_schools env_AB g"
    by blast+
  with h1 h2 show ?thesis
    by simp
qed

text \<open>
  The claim lets startup fail only when the environment mapping is empty or no workbook
  is found. With one environment file and a workbook that has no sheets, the environment
  mapping is not empty and the workbook is found, and the run still shows the fatal
  error: the check also stops on the empty mapping that such a workbook loads to.
\<close>

theorem workbook_without_sheets_stops:
  "load_environment_data dir_no_sheets = Inr [(school_A, env_of [20, 22])] \<and>
   find (\<lambda>f. suffix (entry_name f) = ascii ''.xlsx'') dir_no_sheets = Some (workbook ''growth.xlsx'' []) \<and>
   load_growth_data dir_no_sheets = Inr (Some []) \<and>
   fst (script exact all_schools fresh_process dir_no_sheets) = Inr Fatal_error"
  by (simp add: script_def cache_data_def fresh_process_def after_loading_def startup_stop_def
      load_environment_data_def load_growth_data_def dir_no_sheets_def path_defs label_defs)

section \<open>The dataset locator\<close>

lemma split_not_Nil:
  "split sep s \<noteq> []"
  by (induction s) (auto split: list.splits)

lemma school_name_takeWhile:
  "school_name name = takeWhile (\<lambda>c. c \<noteq> underscore) (stem name)"
proof -
  have "(case split sep s of [] \<Rightarrow> [] | w # _ \<Rightarrow> w) = takeWhile (\<lambda>c. c \<noteq> sep) s" for sep s
    by (induction s) (auto split: list.splits)
  then show ?thesis
    by (simp add: school_name_def)
qed

lemma takeWhile_before_sep:
  "sep \<notin> set a \<Longrightarrow> takeWhile (\<lambda>c. c \<noteq> sep) (a @ sep # b) = a"
  by (induction a) auto

lemma takeWhile_no_sep:
  "sep \<notin> set a \<Longrightarrow> takeWhile (\<lambda>c. c \<noteq> sep) a = a"
  by (induction a) auto

lemma rfind_None:
  "rfind c xs = None \<longleftrightarrow> c \<notin> set xs"
  by (induction xs) (auto split: option.splits)

lemma rfind_last:
  "c \<notin> set ext \<Longrightarrow> rfind c (s @ c # ext) = Some (length s)"
proof (induction s)
  case Nil
  then have "rfind c ext = None"
    by (simp add: rfind_None)
  then show ?case
    by simp
next
  case (Cons x s)
  then show ?case
    by simp
qed

lemma suffix_stem_of_name:
  assumes "s \<noteq> []" and "ext \<noteq> []" and "dot \<notin> set ext"
  shows "suffix (s @ dot # ext) = dot # ext" and "stem (s @ dot # ext) = s"
  using assms by (simp_all add: suffix_def stem_def rfind_last)

lemma school_files_loop_lookup:
  "map_of (school_files_loop data_dir d) k =
     (case filter (\<lambda>f. suffix (entry_name f) = ascii ''.csv'' \<and> school_name (entry_name f) = k)
             data_dir of
        [] \<Rightarrow> map_of d k
      | f # fs \<Rightarrow> Some (last (f # fs)))"
proof (induction data_dir arbitrary: d)
  case Nil
  then show ?case by simp
next
  case (Cons e es)
  show ?case
    by (simp add: Cons.IH map_of_dict_set split: list.splits)
qed

lemma school_files_loop_distinct:
  "distinct (map fst d) \<Longrightarrow> distinct (map fst (school_files_loop data_dir d))"
  by (induction data_dir arbitrary: d) (simp_all add: distinct_dict_set)

text \<open>
  C4. For every directory listing and every key, the mapping built by the first loop of
  the environment loader holds under that key the last entry of the listing that has the
  suffix \<open>.csv\<close> and whose key is that key; it holds nothing under a key that no such
  entry has. Every such entry is therefore registered under its key, and a later one
  replaces an earlier one. The keys are pairwise distinct. The key of an entry is
  derived from its name as follows: a name made of a non-empty stem \<open>s\<close>, a dot and a
  non-empty extension without a dot has the suffix dot-and-extension and the stem \<open>s\<close>;
  its key is \<open>s\<close> itself when \<open>s\<close> has no underscore, and the part of \<open>s\<close> before its
  first underscore otherwise.
\<close>

theorem school_files_last_wins:
  "map_of (school_files_loop data_dir []) k =
     (case filter (\<lambda>f. suffix (entry_name f) = ascii ''.csv'' \<and> school_name (entry_name f) = k)
             data_dir of
        [] \<Rightarrow> None
      | f # fs \<Rightarrow> Some (last (f # fs))) \<and>
   distinct (map fst (school_files_loop data_dir [])) \<and>
   (s \<noteq> [] \<and> ext \<noteq> [] \<and> dot \<notin> set ext \<longrightarrow>
      suffix (s @ dot # ext) = dot # ext \<and>
      stem (s @ dot # ext) = s \<and>
      (underscore \<notin> set s \<longrightarrow> school_name (s @ dot # ext) = s) \<and>
      (\<forall>a b. s = a @ underscore # b \<and> underscore \<notin> set a \<longrightarrow> school_name (s @ dot # ext) = a))"
proof (intro conjI impI allI)
  show "map_of (school_files_loop data_dir []) k =
     (case filter (\<lambda>f. suffix (entry_name f) = ascii ''.csv'' \<and> school_name (entry_name f) = k)
             data_dir of
        [] \<Rightarrow> None
      | f # fs \<Rightarrow> Some (last (f # fs)))"
    by (simp add: school_files_loop_lookup split: list.splits)
  show "distinct (map fst (school_files_loop data_dir []))"
    by (simp add: school_files_loop_distinct)
next
  assume a: "s \<noteq> [] \<and> ext \<noteq> [] \<and> dot \<notin> set ext"
  then show "suffix (s @ dot # ext) = dot # ext" and st: "stem (s @ dot # ext) = s"
    by (simp_all add: suffix_stem_of_name)
  {
    assume "underscore \<notin> set s"
    then have "takeWhile (\<lambda>c. c \<noteq> underscore) s = s"
      by (rule takeWhile_no_sep)
    then show "school_name (s @ dot # ext) = s"
      by (simp add: school_name_takeWhile st)
  }
  {
    fix a b
    assume "s = a @ underscore # b \<and> underscore \<notin> set a"
    then have "takeWhile (\<lambda>c. c \<noteq> underscore) s = a"
      by (simp add: takeWhile_before_sep)
    then show "school_name (s @ dot # ext) = a"
      by (simp add: school_name_takeWhile st)
  }
qed

theorem school_files_last_wins_witness:
  "map_of (school_files_loop dir_two_A []) school_A = Some (csv_file ''A_new.csv'' [30]) \<and>
   map fst (school_files_loop dir_two_A []) = [school_A, school_B] \<and>
   school_name (ascii ''C.csv'') = ascii ''C'' \<and>
   school_name (ascii ''D_x.v2.csv'') = ascii ''D'' \<and>
   stem (ascii ''D_x.v2.csv'') = ascii ''D_x.v2'' \<and>
   map fst (school_files_loop dir_names []) = [ascii ''C'', ascii ''D'']"
proof -
  have "filter (\<lambda>f. suffix (entry_name f) = ascii ''.csv'' \<and> school_name (entry_name f) = school_A)
          dir_two_A = [csv_file ''A_old.csv'' [20], csv_file ''A_new.csv'' [30]]"
    by (simp add: dir_two_A_def path_defs label_defs)
  with school_files_last_wins[of dir_two_A school_A]
  have a: "map_of (school_files_loop dir_two_A []) school_A = Some (csv_file ''A_new.csv'' [30])"
    by simp
  have b: "map fst (school_files_loop dir_two_A []) = [school_A, school_B]"
    by (simp add: dir_two_A_def path_defs label_defs)
  have "ascii ''C.csv'' = ascii ''C'' @ dot # ascii ''csv''"
    and "ascii ''C'' \<noteq> [] \<and> ascii ''csv'' \<noteq> [] \<and> dot \<notin> set (ascii ''csv'')"
    and "underscore \<notin> set (ascii ''C'')"
    by (simp_all add: label_defs)
  with school_files_last_wins[of _ _ "ascii ''C''" "ascii ''csv''"]
  have c: "school_name (ascii ''C.csv'') = ascii ''C''"
    by simp
  have "ascii ''D_x.v2.csv'' = ascii ''D_x.v2'' @ dot # ascii ''csv''"
    and "ascii ''D_x.v2'' \<noteq> [] \<and> ascii ''csv'' \<noteq> [] \<and> dot \<notin> set (ascii ''csv'')"
    and "ascii ''D_x.v2'' = ascii ''D'' @ underscore # ascii ''x.v2'' \<and> underscore \<notin> set (ascii ''D'')"
    by (simp_all add: label_defs)
  with school_files_last_wins[of _ _ "ascii ''D_x.v2''" "ascii ''csv''"]
  have d: "school_name (ascii ''D_x.v2.csv'') = ascii ''D''"
    and e: "stem (ascii ''D_x.v2.csv'') = ascii ''D_x.v2''"
    by simp_all
  have f: "map fst (school_files_loop dir_names []) = [ascii ''C'', ascii ''D'']"
    by (simp add: dir_names_def path_defs label_defs)
  from a b c d e f show ?thesis
    by (intro conjI)
qed

section \<open>A school without a sheet\<close>

text \<open>
  Once a school is selected in the sidebar the environment tab raises, whatever the
  data: the run ends there and the growth tab is not reached.
\<close>

lemma selected_school_raises:
  assumes "selected_school \<noteq> all_schools"
  shows "\<exists>e. tab2 fp selected_school env_data = Inl e"
proof (cases "avg_rows fp env_data")
  case (Inl e)
  then show ?thesis
    by (simp add: tab2_def)
next
  case (Inr rs)
  from time_series_selected[OF assms] obtain e where "time_series selected_school env_data = Inl e"
    by blast
  with Inr show ?thesis
    by (simp add: tab2_def)
qed

text \<open>
  C5, as the code has it. Let a school be a key of the environment data and not of the
  growth data, let every environment table and every sheet have its numeric columns, and
  let the mean fresh weight of some sheet not be NaN. Then, with the sidebar on its
  default choice of all schools, the run after loading renders the three tabs without an
  error; the overview has a row for the school, and every overview row for the school
  shows the specimen count 0; the growth summary has no row for the school at all.
\<close>

theorem school_without_sheet:
  assumes "school \<in> fst ` set env_data"
    and "school \<notin> fst ` set growth_data"
    and "\<forall>(s, df) \<in> set env_data. env_table df"
    and "\<forall>(s, df) \<in> set growth_data. growth_table df"
    and "\<exists>(s, df) \<in> set growth_data. mean_of fp df col_fresh_weight \<noteq> None"
  shows "\<exists>d. after_loading fp all_schools env_data (Some growth_data) = Inr (Rendered d) \<and>
           (\<exists>r \<in> set (overview_table (overview d)). o_school r = school) \<and>
           (\<forall>r \<in> set (overview_table (overview d)). o_school r = school \<longrightarrow> o_count r = 0) \<and>
           school \<notin> g_school ` set (summary_df (growth d))"
proof -
  from assms(1) have ne: "env_data \<noteq> []"
    by auto
  from assms(3) have et: "\<forall>g \<in> set env_data. env_table (snd g)"
    by auto
  from assms(4) have gt: "\<forall>g \<in> set growth_data. growth_table (snd g)"
    by auto
  from assms(5) obtain g m0 where g: "g \<in> set growth_data"
    "mean_of fp (snd g) col_fresh_weight = Some m0"
    by auto
  then have ng: "growth_data \<noteq> []"
    by auto
  let ?t1 = "\<lparr>overview_table = map (\<lambda>g. overview_row_of growth_data (fst g)) env_data,
               metric_total_count = sum_list (map (\<lambda>g. specimen_count growth_data (fst g)) env_data),
               metric_temperature =
                 fdiv fp (py_sum fp (map (\<lambda>g. mean_of fp (snd g) col_temperature) env_data))
                   (length env_data),
               metric_humidity =
                 fdiv fp (py_sum fp (map (\<lambda>g. mean_of fp (snd g) col_humidity) env_data))
                   (length env_data),
               metric_best_ec = best_ec_label\<rparr>"
  have t1: "tab1 fp env_data growth_data = Inr ?t1"
    by (rule tab1_tables[OF ne et])
  have t2: "tab2 fp all_schools env_data = Inr (map (env_row_of fp) env_data)"
    by (simp add: tab2_def avg_rows_tables[OF et] time_series_all)
  from tab3_tables[OF gt g] obtain t3 where t3: "tab3 fp growth_data = Inr t3"
    "summary_df t3 = map (growth_row_of fp) growth_data"
    by blast
  let ?d = "\<lparr>overview = ?t1, environment = map (env_row_of fp) env_data, growth = t3\<rparr>"
  have r: "after_loading fp all_schools env_data (Some growth_data) = Inr (Rendered ?d)"
    using ne ng by (simp add: after_loading_def startup_stop_def render_def t1 t2 t3)
  have a: "\<exists>r \<in> set (overview_table (overview ?d)). o_school r = school"
    using assms(1) by (auto simp: overview_row_of_def)
  have b: "\<forall>r \<in> set (overview_table (overview ?d)). o_school r = school \<longrightarrow> o_count r = 0"
    using specimen_count_absent[OF assms(2)] by (auto simp: overview_row_of_def)
  have c: "school \<notin> g_school ` set (summary_df (growth ?d))"
    using assms(2) by (force simp: t3(2) growth_row_of_def)
  from r a b c show ?thesis
    by (intro exI[of _ ?d] conjI)
qed

theorem school_without_sheet_witness:
  "school_B \<in> fst ` set env_AB \<and> school_B \<notin> fst ` set growth_A \<and>
   list_all (\<lambda>(s, df). env_table df) env_AB \<and>
   list_all (\<lambda>(s, df). growth_table df) growth_A \<and>
   list_ex (\<lambda>(s, df). mean_of exact df col_fresh_weight \<noteq> None) growth_A \<and>
   (\<exists>d. after_loading exact all_schools env_AB (Some growth_A) = Inr (Rendered d) \<and>
        school_B \<notin> g_school ` set (summary_df (growth d)))"
proof -
  have h1: "school_B \<in> fst ` set env_AB"
    by (simp add: env_AB_def)
  have h2: "school_B \<notin> fst ` set growth_A"
    by (simp add: growth_A_def label_defs)
  have h3: "\<forall>(s, df) \<in> set env_AB. env_table df"
    by (simp add: env_AB_def table_defs label_defs)
  have h4: "\<forall>(s, df) \<in> set growth_A. growth_table df"
    by (simp add: growth_A_def table_defs label_defs)
  have h5: "\<exists>(s, df) \<in> set growth_A. mean_of exact df col_fresh_weight \<noteq> None"
    by (simp add: growth_A_def table_defs label_defs)
  from school_without_sheet[OF h1 h2 h3 h4 h5] obtain d
    where "after_loading exact all_schools env_AB (Some growth_A) = Inr (Rendered d)"
      "school_B \<notin> g_school ` set (summary_df (growth d))"
    by blast
  then have "\<exists>d. after_loading exact all_schools env_AB (Some growth_A) = Inr (Rendered d) \<and>
        school_B \<notin> g_school ` set (summary_df (growth d))"
    by (intro exI[of _ d] conjI)
  with h1 h2 h3 h4 h5 show ?thesis
    by (simp add: list_all_iff list_ex_iff)
qed

text \<open>
  The claim has the growth averages of such a school shown as a placeholder. With
  environment files for A and B and a workbook with a sheet for A only, the overview
  lists B with the count 0, and the growth summary has the one row of A: nothing, and so
  no placeholder, is shown for B.
\<close>

theorem school_without_sheet_has_no_growth_row:
  "map_sum id (\<lambda>t. map (\<lambda>r. (o_school r, o_count r)) (overview_table t))
     (tab1 exact env_AB growth_A) = Inr [(school_A, 3), (school_B, 0)] \<and>
   map_sum id (\<lambda>t. map g_school (summary_df t)) (tab3 exact growth_A) = Inr [school_A]"
proof -
  have e: "\<forall>g \<in> set env_AB. env_table (snd g)"
    by (simp add: env_AB_def table_defs label_defs)
  have n: "env_AB \<noteq> []"
    by (simp add: env_AB_def)
  have a: "map_sum id (\<lambda>t. map (\<lambda>r. (o_school r, o_count r)) (overview_table t))
      (tab1 exact env_AB growth_A) = Inr [(school_A, 3), (school_B, 0)]"
    unfolding tab1_tables[OF n e]
    by (simp add: env_AB_def overview_row_of_def specimen_count_def growth_A_def len_def
        sheet_of_def label_defs)
  have t: "\<forall>g \<in> set growth_A. growth_table (snd g)"
    by (simp add: growth_A_def table_defs label_defs)
  have g: "(school_A, sheet_of [1, 2, 3]) \<in> set growth_A"
    "mean_of exact (snd (school_A, sheet_of [1, 2, 3])) col_fresh_weight = Some (Finite 2)"
    by (simp_all add: growth_A_def table_defs label_defs)
  from tab3_tables[OF t g] obtain t3 where "tab3 exact growth_A = Inr t3"
    "summary_df t3 = map (growth_row_of exact) growth_A"
    by blast
  then have b: "map_sum id (\<lambda>t. map g_school (summary_df t)) (tab3 exact growth_A) = Inr [school_A]"
    by (simp add: growth_A_def growth_row_of_def)
  from a b show ?thesis
    by simp
qed

section \<open>Name normalisation\<close>

lemma find_file_by_name_sound:
  "find_file_by_name nfc directory target_name = Some f \<Longrightarrow>
     f \<in> set directory \<and> nfc (entry_name f) = nfc target_name"
  by (auto simp: find_file_by_name_def normalize_name_def dest: find_SomeD)

lemma find_file_by_name_complete:
  "e \<in> set directory \<Longrightarrow> nfc (entry_name e) = nfc target_name \<Longrightarrow>
     \<exists>f. find_file_by_name nfc directory target_name = Some f"
  by (cases "find_file_by_name nfc directory target_name")
     (auto simp: find_file_by_name_def normalize_name_def find_None_iff)

text \<open>
  C6 on the code. \<open>find_file_by_name\<close> compares names by their normal forms (the two
  lemmas above, for any normaliser), but the loaders do not call it: they take the key
  from the raw entry name. For the environment file of Haneul-go named in decomposed
  form, and the same name in composed form: the two names differ and have the same NFC
  form, \<open>find_file_by_name\<close> finds the decomposed file under the composed name, and the
  environment loader registers the two files under two different keys, of which the
  decomposed one is not a key of \<open>ec_conditions\<close>.
\<close>

theorem loader_keys_are_not_normalised:
  "entry_name nfd_csv \<noteq> entry_name nfc_csv \<and>
   hangul_nfc (entry_name nfd_csv) = hangul_nfc (entry_name nfc_csv) \<and>
   find_file_by_name hangul_nfc [nfd_csv] (entry_name nfc_csv) = Some nfd_csv \<and>
   map fst (school_files_loop [nfd_csv, nfc_csv] []) = [haneul_nfd, haneul] \<and>
   map_of ec_conditions haneul_nfd = None \<and>
   map_of ec_conditions haneul = Some 2"
proof -
  have a: "entry_name nfd_csv \<noteq> entry_name nfc_csv"
    by (simp add: hangul_defs label_defs)
  have b: "hangul_nfc (entry_name nfd_csv) = entry_name nfc_csv"
    by (simp add: hangul_defs label_defs)
  have c: "hangul_nfc (entry_name nfc_csv) = entry_name nfc_csv"
    by (simp add: hangul_defs label_defs)
  from b c have d: "find_file_by_name hangul_nfc [nfd_csv] (entry_name nfc_csv) = Some nfd_csv"
    by (simp add: find_file_by_name_def normalize_name_def)
  have e: "map fst (school_files_loop [nfd_csv, nfc_csv] []) = [haneul_nfd, haneul]"
    by (simp add: path_defs hangul_defs label_defs)
  have f: "map_of ec_conditions haneul_nfd = None" "map_of ec_conditions haneul = Some 2"
    by (simp_all add: ec_conditions_def hangul_defs label_defs)
  from a b c d e f show ?thesis
    by simp
qed

section \<open>The long-form table\<close>

lemma cell_at_dict_set:
  "cell_at k (dict_set k v r) = v"
  by (simp add: cell_at_def map_of_dict_set)

lemma school_column_of_assign:
  "map (cell_at col_school) (rows (assign_school df school)) = replicate (len df) (Str school)"
proof -
  have "map (cell_at col_school) (map (dict_set col_school (Str school)) rs)
          = replicate (length rs) (Str school)" for rs
    by (induction rs) (simp_all add: cell_at_dict_set)
  then show ?thesis
    by (simp add: assign_school_def len_def)
qed

text \<open>
  C7. For non-empty growth data (the startup check lets the growth tab run on no other)
  the long-form table is produced, its row count is the sum of the row counts of the
  sheets, and its school column reads, sheet after sheet in iteration order, the school
  of the sheet once for each of the sheet's rows.
\<close>

theorem long_form_row_count:
  assumes "growth_data \<noteq> []"
  shows "\<exists>c. concat_df growth_data = Inr c \<and>
           len c = sum_list (map (\<lambda>(school, df). len df) growth_data) \<and>
           map (cell_at col_school) (rows c) =
             concat (map (\<lambda>(school, df). replicate (len df) (Str school)) growth_data)"
proof -
  let ?frames = "map (\<lambda>(school, df). assign_school df school) growth_data"
  let ?c = "\<lparr>columns = rev (remdups (rev (concat (map columns ?frames)))),
             rows = concat (map rows ?frames)\<rparr>"
  from assms have c: "concat_df growth_data = Inr ?c"
    by (simp add: concat_df_def concat_frames_def)
  have n: "len ?c = sum_list (map (\<lambda>(school, df). len df) growth_data)"
    by (induction growth_data) (auto simp: len_def assign_school_def)
  have t: "map (cell_at col_school) (rows ?c) =
             concat (map (\<lambda>(school, df). replicate (len df) (Str school)) growth_data)"
    by (induction growth_data) (auto simp: school_column_of_assign)
  from c n t show ?thesis
    by blast
qed

theorem long_form_row_count_witness:
  "growth_AB \<noteq> [] \<and>
   (\<exists>c. concat_df growth_AB = Inr c \<and> len c = 8 \<and>
      map (cell_at col_school) (rows c) =
        [Str school_A, Str school_A, Str school_A,
         Str school_B, Str school_B, Str school_B, Str school_B, Str school_B])"
proof -
  have h: "growth_AB \<noteq> []"
    by (simp add: growth_AB_def)
  from long_form_row_count[OF h] obtain c where c: "concat_df growth_AB = Inr c"
    "len c = sum_list (map (\<lambda>(school, df). len df) growth_AB)"
    "map (cell_at col_school) (rows c) =
       concat (map (\<lambda>(school, df). replicate (len df) (Str school)) growth_AB)"
    by blast
  from c(2) have n: "len c = 8"
    by (simp add: growth_AB_def len_def sheet_of_def)
  from c(3) have t: "map (cell_at col_school) (rows c) =
        [Str school_A, Str school_A, Str school_A,
         Str school_B, Str school_B, Str school_B, Str school_B, Str school_B]"
    by (simp add: growth_AB_def len_def sheet_of_def)
  from c(1) n t have "\<exists>c. concat_df growth_AB = Inr c \<and> len c = 8 \<and>
      map (cell_at col_school) (rows c) =
        [Str school_A, Str school_A, Str school_A,
         Str school_B, Str school_B, Str school_B, Str school_B, Str school_B]"
    by (intro exI[of _ c] conjI)
  with h show ?thesis
    by simp
qed

section \<open>The loader cache across runs\<close>

lemma cache_data_filled:
  "cache_data f (Some v) data_dir = (Inr v, Some v)"
  by (simp add: cache_data_def)

lemma cache_data_first:
  "f data_dir = Inr v \<Longrightarrow> cache_data f None data_dir = (Inr v, Some v)"
  by (simp add: cache_data_def)

text \<open>
  C8, as the code has it. Let both loaders return on the directory \<open>d1\<close> in a process
  with empty caches. The first call of each loader returns what the loader computes on
  \<open>d1\<close> and fills the cache; every later call in the process, whatever the directory
  \<open>d2\<close> then holds, returns that same value and leaves the cache as it is, and a later
  run of the script on \<open>d2\<close> with the same sidebar choice shows what the run on \<open>d1\<close>
  showed. A change of the
  directory does not invalidate the cache.
\<close>

theorem loader_cache_ignores_directory:
  assumes "load_environment_data d1 = Inr env_data"
    and "load_growth_data d1 = Inr growth_data"
  shows "cache_data load_environment_data None d1 = (Inr env_data, Some env_data) \<and>
         cache_data load_growth_data None d1 = (Inr growth_data, Some growth_data) \<and>
         cache_data load_environment_data (Some env_data) d2 = (Inr env_data, Some env_data) \<and>
         cache_data load_growth_data (Some growth_data) d2 = (Inr growth_data, Some growth_data) \<and>
         script fp selected_school (snd (script fp selected_school fresh_process d1)) d2 =
           script fp selected_school fresh_process d1"
proof -
  have s1: "script fp selected_school fresh_process d1 =
      (after_loading fp selected_school env_data growth_data,
       \<lparr>env_slot = Some env_data, growth_slot = Some growth_data\<rparr>)"
    by (rule script_fresh_process[OF assms])
  have s2: "script fp selected_school \<lparr>env_slot = Some env_data, growth_slot = Some growth_data\<rparr> d2 =
      (after_loading fp selected_school env_data growth_data,
       \<lparr>env_slot = Some env_data, growth_slot = Some growth_data\<rparr>)"
    by (simp add: script_def cache_data_filled)
  from s1 s2 have "script fp selected_school (snd (script fp selected_school fresh_process d1)) d2 =
           script fp selected_school fresh_process d1"
    by simp
  with assms show ?thesis
    by (simp add: cache_data_filled cache_data_first)
qed

theorem loader_cache_ignores_directory_witness:
  "load_environment_data dir_A = Inr [(school_A, env_of [20, 22])] \<and>
   load_growth_data dir_A = Inr (Some growth_AB) \<and>
   cache_data load_environment_data (Some [(school_A, env_of [20, 22])]) dir_AB
     = (Inr [(school_A, env_of [20, 22])], Some [(school_A, env_of [20, 22])]) \<and>
   script exact all_schools (snd (script exact all_schools fresh_process dir_A)) dir_AB =
     script exact all_schools fresh_process dir_A"
proof -
  have h1: "load_environment_data dir_A = Inr [(school_A, env_of [20, 22])]"
    by (simp add: load_environment_data_def dir_A_def path_defs label_defs)
  have h2: "load_growth_data dir_A = Inr (Some growth_AB)"
    by (simp add: load_growth_data_def dir_A_def growth_AB_def path_defs label_defs)
  from loader_cache_ignores_directory[OF h1 h2, of dir_AB exact all_schools] h1 h2 show ?thesis
    by simp
qed

text \<open>
  The claim has the cached result invalidated when the directory contents change. Load
  the environment data from a directory with the file of school A, then add the file of
  school B and call the loader again: the second call returns the mapping with A alone,
  not the mapping with A and B that the loader computes on the directory as it is now.
\<close>

theorem changed_directory_returns_stale_data:
  "fst (cache_data load_environment_data
          (snd (cache_data load_environment_data None dir_A)) dir_AB)
     = Inr [(school_A, env_of [20, 22])] \<and>
   load_environment_data dir_AB = Inr [(school_A, env_of [20, 22]), (school_B, env_of [24])] \<and>
   dir_A \<noteq> dir_AB"
proof -
  have a: "load_environment_data dir_A = Inr [(school_A, env_of [20, 22])]"
    by (simp add: load_environment_data_def dir_A_def path_defs label_defs)
  have b: "load_environment_data dir_AB = Inr [(school_A, env_of [20, 22]), (school_B, env_of [24])]"
    by (simp add: load_environment_data_def dir_AB_def path_defs label_defs)
  have c: "dir_A \<noteq> dir_AB"
    by (simp add: dir_A_def dir_AB_def)
  from a b c show ?thesis
    by (simp add: cache_data_def)
qed

section \<open>The metrics of the overview\<close>

lemma tab1_best_ec:
  "tab1 fp env_data growth_data = Inr t \<Longrightarrow> metric_best_ec t = best_ec_label"
  by (auto simp: tab1_def split: sum.splits)

text \<open>
  C9. Whatever the environment and growth data (and the rounding), when the overview
  renders its fourth metric is the fixed label \<open>2.0 (Haneul-go)\<close> with the star. It is
  not computed from the data: on two schools where Songdo-go, with target EC 1.0, has the
  greater mean fresh weight, the overview still shows the label while the best group of
  the growth tab is Songdo-go.
\<close>

theorem overview_best_ec_is_constant:
  "(tab1 fp env_data growth_data = Inr t \<longrightarrow> metric_best_ec t = best_ec_label) \<and>
   (\<exists>t' b. tab1 exact env_songdo growth_songdo = Inr t' \<and> metric_best_ec t' = best_ec_label \<and>
      best_group exact growth_songdo = Inr b \<and> g_school b = songdo \<and> g_ec b = Some 1 \<and>
      songdo \<noteq> haneul)"
proof -
  have e: "\<forall>g \<in> set env_songdo. env_table (snd g)"
    by (simp add: env_songdo_def table_defs label_defs)
  have n: "env_songdo \<noteq> []"
    by (simp add: env_songdo_def)
  from tab1_tables[OF n e] obtain t' where t': "tab1 exact env_songdo growth_songdo = Inr t'"
    by blast
  have b: "best_group exact growth_songdo =
      Inr \<lparr>g_school = songdo, g_ec = Some 1, mean_fresh_weight = Some (Finite 3),
           mean_leaf_count = Some (Finite 4), mean_shoot_length = Some (Finite 30), g_count = 1\<rparr>"
    by (simp add: best_group_def best_of_def idxmax_def loc_def growth_songdo_def
        ec_conditions_def table_defs label_defs)
  have d: "songdo \<noteq> haneul"
    by (simp add: label_defs)
  from t' tab1_best_ec[OF t'] b d
  have "\<exists>t' b. tab1 exact env_songdo growth_songdo = Inr t' \<and> metric_best_ec t' = best_ec_label \<and>
      best_group exact growth_songdo = Inr b \<and> g_school b = songdo \<and> g_ec b = Some 1 \<and>
      songdo \<noteq> haneul"
    by (intro exI[of _ t'] exI[of _ "\<lparr>g_school = songdo, g_ec = Some 1,
           mean_fresh_weight = Some (Finite 3), mean_leaf_count = Some (Finite 4),
           mean_shoot_length = Some (Finite 30), g_count = 1\<rparr>"]) simp
  moreover have "tab1 fp env_data growth_data = Inr t \<longrightarrow> metric_best_ec t = best_ec_label"
    by (simp add: tab1_best_ec)
  ultimately show ?thesis
    by (intro conjI)
qed

theorem overview_best_ec_is_constant_witness:
  "\<exists>t. tab1 exact env_AB growth_AB = Inr t \<and> metric_best_ec t = best_ec_label"
proof -
  have e: "\<forall>g \<in> set env_AB. env_table (snd g)"
    by (simp add: env_AB_def table_defs label_defs)
  have n: "env_AB \<noteq> []"
    by (simp add: env_AB_def)
  from tab1_tables[OF n e] obtain t where t: "tab1 exact env_AB growth_AB = Inr t"
    by blast
  from overview_best_ec_is_constant[of exact env_AB growth_AB t] t
  have "metric_best_ec t = best_ec_label"
    by simp
  with t show ?thesis
    by (intro exI[of _ t] conjI)
qed

section \<open>The overall averages of the overview\<close>

lemma exact_sum:
  "foldl exact_add (Some (Finite a)) (map (\<lambda>x. Some (Finite x)) xs) = Some (Finite (a + sum_list xs))"
  by (induction xs arbitrary: a) (simp_all add: exact_add_def add.assoc)

lemma exact_average:
  "fdiv exact (py_sum exact (map (\<lambda>x. Some (Finite x)) xs)) n = Some (Finite (sum_list xs / real n))"
  by (simp add: py_sum_def exact_def exact_sum)

lemma two_group_means_differ:
  fixes m1 m2 n1 n2 :: real
  assumes "0 < n1" and "0 < n2" and "n1 \<noteq> n2" and "m1 \<noteq> m2"
  shows "(m1 + m2) / 2 \<noteq> (n1 * m1 + n2 * m2) / (n1 + n2)"
proof
  assume "(m1 + m2) / 2 = (n1 * m1 + n2 * m2) / (n1 + n2)"
  with assms(1,2) have "(m1 + m2) * (n1 + n2) = 2 * (n1 * m1 + n2 * m2)"
    by (simp add: field_simps)
  then have "(m1 - m2) * (n2 - n1) = 0"
    by (simp add: algebra_simps)
  with assms(3,4) show False
    by simp
qed

lemma tab1_averages:
  assumes "env_data \<noteq> []"
    and "\<forall>g \<in> set env_data. env_table (snd g) \<and> values_of (snd g) col_temperature \<noteq> [] \<and>
           values_of (snd g) col_humidity \<noteq> []"
  shows "\<exists>t. tab1 exact env_data growth_data = Inr t \<and>
           metric_temperature t =
             Some (Finite (sum_list (map (\<lambda>g. arithmetic_mean (values_of (snd g) col_temperature))
                                      env_data) / real (length env_data))) \<and>
           metric_humidity t =
             Some (Finite (sum_list (map (\<lambda>g. arithmetic_mean (values_of (snd g) col_humidity))
                                      env_data) / real (length env_data)))"
proof -
  let ?ts = "map (\<lambda>g. arithmetic_mean (values_of (snd g) col_temperature)) env_data"
  let ?hs = "map (\<lambda>g. arithmetic_mean (values_of (snd g) col_humidity)) env_data"
  from assms(2) have et: "\<forall>g \<in> set env_data. env_table (snd g)"
    by simp
  have ts: "map (\<lambda>g. mean_of exact (snd g) col_temperature) env_data = map (\<lambda>x. Some (Finite x)) ?ts"
    using assms(2) by (simp add: mean_of_def exact_def)
  have hs: "map (\<lambda>g. mean_of exact (snd g) col_humidity) env_data = map (\<lambda>x. Some (Finite x)) ?hs"
    using assms(2) by (simp add: mean_of_def exact_def)
  show ?thesis
    unfolding tab1_tables[OF assms(1) et] ts hs exact_average by simp
qed

text \<open>
  C10, as the code has it. When the environment data is not empty and every table has
  its numeric columns, the overall average temperature and humidity of the overview (the
  numbers before formatting) are the float64 sums of the per-school column means divided
  by the number of schools: every school weighs the same. Without rounding, and when
  every school has a non-missing temperature and humidity, they are the sums of the
  per-school arithmetic means divided by the number of schools; with exactly two schools
  whose temperature columns have different numbers of non-missing values and different
  means, this average differs from the mean over all pooled readings.
\<close>

theorem overview_average_is_mean_of_means:
  assumes "env_data \<noteq> []"
    and "\<forall>(school, df) \<in> set env_data. env_table df \<and> values_of df col_temperature \<noteq> [] \<and>
           values_of df col_humidity \<noteq> []"
  shows "(\<exists>t'. tab1 fp env_data growth_data = Inr t' \<and>
            metric_temperature t' =
              fdiv fp (py_sum fp (map (\<lambda>(school, df). fmean fp (values_of df col_temperature)) env_data))
                (length env_data) \<and>
            metric_humidity t' =
              fdiv fp (py_sum fp (map (\<lambda>(school, df). fmean fp (values_of df col_humidity)) env_data))
                (length env_data)) \<and>
         (\<exists>t. tab1 exact env_data growth_data = Inr t \<and>
           metric_temperature t =
             Some (Finite (sum_list (map (\<lambda>(school, df). arithmetic_mean (values_of df col_temperature))
                                      env_data) / real (length env_data))) \<and>
           metric_humidity t =
             Some (Finite (sum_list (map (\<lambda>(school, df). arithmetic_mean (values_of df col_humidity))
                                      env_data) / real (length env_data))) \<and>
           (\<forall>a dfa b dfb. env_data = [(a, dfa), (b, dfb)] \<longrightarrow>
              length (values_of dfa col_temperature) \<noteq> length (values_of dfb col_temperature) \<longrightarrow>
              arithmetic_mean (values_of dfa col_temperature)
                \<noteq> arithmetic_mean (values_of dfb col_temperature) \<longrightarrow>
              metric_temperature t \<noteq> Some (Finite (pooled_mean env_data col_temperature))))"
proof -
  from assms(2) have h: "\<forall>g \<in> set env_data. env_table (snd g) \<and>
      values_of (snd g) col_temperature \<noteq> [] \<and> values_of (snd g) col_humidity \<noteq> []"
    by auto
  then have et: "\<forall>g \<in> set env_data. env_table (snd g)"
    by simp
  have mt: "map (\<lambda>g. mean_of fp (snd g) col_temperature) env_data =
      map (\<lambda>(school, df). fmean fp (values_of df col_temperature)) env_data"
    and mh: "map (\<lambda>g. mean_of fp (snd g) col_humidity) env_data =
      map (\<lambda>(school, df). fmean fp (values_of df col_humidity)) env_data"
    using h by (auto simp: mean_of_def)
  have general: "\<exists>t'. tab1 fp env_data growth_data = Inr t' \<and>
            metric_temperature t' =
              fdiv fp (py_sum fp (map (\<lambda>(school, df). fmean fp (values_of df col_temperature)) env_data))
                (length env_data) \<and>
            metric_humidity t' =
              fdiv fp (py_sum fp (map (\<lambda>(school, df). fmean fp (values_of df col_humidity)) env_data))
                (length env_data)"
    unfolding tab1_tables[OF assms(1) et] mt mh by simp
  from tab1_averages[OF assms(1) h] obtain t where t: "tab1 exact env_data growth_data = Inr t"
    "metric_temperature t =
       Some (Finite (sum_list (map (\<lambda>g. arithmetic_mean (values_of (snd g) col_temperature)) env_data)
             / real (length env_data)))"
    "metric_humidity t =
       Some (Finite (sum_list (map (\<lambda>g. arithmetic_mean (values_of (snd g) col_humidity)) env_data)
             / real (length env_data)))"
    by blast
  have two: "metric_temperature t \<noteq> Some (Finite (pooled_mean env_data col_temperature))"
    if e: "env_data = [(a, dfa), (b, dfb)]"
      and n: "length (values_of dfa col_temperature) \<noteq> length (values_of dfb col_temperature)"
      and m: "arithmetic_mean (values_of dfa col_temperature)
                \<noteq> arithmetic_mean (values_of dfb col_temperature)"
    for a dfa b dfb
  proof -
    let ?xs = "values_of dfa col_temperature" and ?ys = "values_of dfb col_temperature"
    from assms(2) e have x: "?xs \<noteq> []" and y: "?ys \<noteq> []"
      by simp_all
    then have px: "0 < real (length ?xs)" and py: "0 < real (length ?ys)"
      by simp_all
    from n have pn: "real (length ?xs) \<noteq> real (length ?ys)"
      by simp
    have sx: "sum_list ?xs = real (length ?xs) * arithmetic_mean ?xs"
      using x by (simp add: arithmetic_mean_def)
    have sy: "sum_list ?ys = real (length ?ys) * arithmetic_mean ?ys"
      using y by (simp add: arithmetic_mean_def)
    have pool: "pooled_mean env_data col_temperature =
        (real (length ?xs) * arithmetic_mean ?xs + real (length ?ys) * arithmetic_mean ?ys)
          / (real (length ?xs) + real (length ?ys))"
      unfolding pooled_mean_def e using sx sy by (simp add: arithmetic_mean_def[of "?xs @ ?ys"])
    have mm: "metric_temperature t = Some (Finite ((arithmetic_mean ?xs + arithmetic_mean ?ys) / 2))"
      unfolding t(2) e by simp
    from two_group_means_differ[OF px py pn m] show ?thesis
      unfolding mm pool by simp
  qed
  have eqt: "(\<lambda>g. arithmetic_mean (values_of (snd g) col_temperature))
      = (\<lambda>(school, df). arithmetic_mean (values_of df col_temperature))"
    and eqh: "(\<lambda>g. arithmetic_mean (values_of (snd g) col_humidity))
      = (\<lambda>(school, df). arithmetic_mean (values_of df col_humidity))"
    by (simp_all add: fun_eq_iff)
  from t(2,3) have t2: "metric_temperature t =
             Some (Finite (sum_list (map (\<lambda>(school, df). arithmetic_mean (values_of df col_temperature))
                                      env_data) / real (length env_data)))"
    and t3: "metric_humidity t =
             Some (Finite (sum_list (map (\<lambda>(school, df). arithmetic_mean (values_of df col_humidity))
                                      env_data) / real (length env_data)))"
    unfolding eqt eqh by simp_all
  from t(1) t2 t3 two have "\<exists>t. tab1 exact env_data growth_data = Inr t \<and>
           metric_temperature t =
             Some (Finite (sum_list (map (\<lambda>(school, df). arithmetic_mean (values_of df col_temperature))
                                      env_data) / real (length env_data))) \<and>
           metric_humidity t =
             Some (Finite (sum_list (map (\<lambda>(school, df). arithmetic_mean (values_of df col_humidity))
                                      env_data) / real (length env_data))) \<and>
           (\<forall>a dfa b dfb. env_data = [(a, dfa), (b, dfb)] \<longrightarrow>
              length (values_of dfa col_temperature) \<noteq> length (values_of dfb col_temperature) \<longrightarrow>
              arithmetic_mean (values_of dfa col_temperature)
                \<noteq> arithmetic_mean (values_of dfb col_temperature) \<longrightarrow>
              metric_temperature t \<noteq> Some (Finite (pooled_mean env_data col_temperature)))"
    by (intro exI[of _ t] conjI allI impI)
  with general show ?thesis
    by (intro conjI)
qed

theorem overview_average_is_mean_of_means_witness:
  "env_AB \<noteq> [] \<and>
   list_all (\<lambda>(school, df). env_table df \<and> values_of df col_temperature \<noteq> [] \<and>
               values_of df col_humidity \<noteq> []) env_AB \<and>
   pooled_mean env_AB col_temperature = 22 \<and>
   (\<exists>t. tab1 exact env_AB growth_AB = Inr t \<and> metric_temperature t = Some (Finite 22.5) \<and>
        metric_temperature t \<noteq> Some (Finite (pooled_mean env_AB col_temperature)))"
proof -
  have h1: "env_AB \<noteq> []"
    by (simp add: env_AB_def)
  have h2: "\<forall>(school, df) \<in> set env_AB. env_table df \<and> values_of df col_temperature \<noteq> [] \<and>
           values_of df col_humidity \<noteq> []"
    by (simp add: env_AB_def table_defs label_defs)
  have p: "pooled_mean env_AB col_temperature = 22"
    by (simp add: pooled_mean_def env_AB_def table_defs label_defs)
  from overview_average_is_mean_of_means[OF h1 h2, of exact growth_AB] obtain t
    where t: "tab1 exact env_AB growth_AB = Inr t"
      "metric_temperature t =
         Some (Finite (sum_list (map (\<lambda>(school, df). arithmetic_mean (values_of df col_temperature))
                                  env_AB) / real (length env_AB)))"
    by blast
  from t(2) have m: "metric_temperature t = Some (Finite 22.5)"
    by (simp add: env_AB_def table_defs label_defs)
  with p have "metric_temperature t \<noteq> Some (Finite (pooled_mean env_AB col_temperature))"
    by simp
  with t(1) m have "\<exists>t. tab1 exact env_AB growth_AB = Inr t \<and>
        metric_temperature t = Some (Finite 22.5) \<and>
        metric_temperature t \<noteq> Some (Finite (pooled_mean env_AB col_temperature))"
    by (intro exI[of _ t] conjI)
  with h1 h2 p show ?thesis
    by (simp add: list_all_iff)
qed

text \<open>
  The claim has the two averages differ for every mapping with unequal row counts and
  differing per-school means. Four schools with 1, 2, 3 and 4 readings and the
  temperature means 0, 5, 2 and 1 have pairwise different row counts and pairwise
  different means, and both the average of the means and the pooled mean are 2 (42 for
  the humidity). Every number involved is a small integer, so rounding plays no part.
\<close>

theorem mean_of_means_can_equal_pooled_mean:
  "map (\<lambda>(school, df). len df) env_four = [1, 2, 3, 4] \<and>
   map (\<lambda>(school, df). mean_of exact df col_temperature) env_four =
     [Some (Finite 0), Some (Finite 5), Some (Finite 2), Some (Finite 1)] \<and>
   map_sum id metric_temperature (tab1 exact env_four []) = Inr (Some (Finite 2)) \<and>
   pooled_mean env_four col_temperature = 2 \<and>
   map_sum id metric_humidity (tab1 exact env_four []) = Inr (Some (Finite 42)) \<and>
   pooled_mean env_four col_humidity = 42"
proof -
  have l: "map (\<lambda>(school, df). len df) env_four = [1, 2, 3, 4]"
    by (simp add: env_four_def table_defs)
  have m: "map (\<lambda>(school, df). mean_of exact df col_temperature) env_four =
     [Some (Finite 0), Some (Finite 5), Some (Finite 2), Some (Finite 1)]"
    by (simp add: env_four_def table_defs label_defs)
  have e: "\<forall>g \<in> set env_four. env_table (snd g)"
    by (simp add: env_four_def table_defs label_defs)
  have n: "env_four \<noteq> []"
    by (simp add: env_four_def)
  have mt: "map (\<lambda>g. mean_of exact (snd g) col_temperature) env_four =
     [Some (Finite 0), Some (Finite 5), Some (Finite 2), Some (Finite 1)]"
    by (simp add: env_four_def table_defs label_defs)
  have mh: "map (\<lambda>g. mean_of exact (snd g) col_humidity) env_four =
     [Some (Finite 40), Some (Finite 45), Some (Finite 42), Some (Finite 41)]"
    by (simp add: env_four_def table_defs label_defs)
  have len: "length env_four = 4"
    by (simp add: env_four_def)
  have t: "map_sum id metric_temperature (tab1 exact env_four []) = Inr (Some (Finite 2))"
    unfolding tab1_tables[OF n e] mt len by (simp add: py_sum_def exact_def exact_add_def)
  have h: "map_sum id metric_humidity (tab1 exact env_four []) = Inr (Some (Finite 42))"
    unfolding tab1_tables[OF n e] mh len by (simp add: py_sum_def exact_def exact_add_def)
  have pt: "pooled_mean env_four col_temperature = 2"
    by (simp add: pooled_mean_def env_four_def table_defs label_defs)
  have ph: "pooled_mean env_four col_humidity = 42"
    by (simp add: pooled_mean_def env_four_def table_defs label_defs)
  from l m t pt h ph show ?thesis
    by (intro conjI)
qed

end
